theory Spec2Isabelle
  imports Complex_Main
begin

section \<open>JavaScript values\<close>

text \<open>
  A parsed response body is whatever \<^verbatim>\<open>response.json()\<close> yields: null, a boolean, a
  number, a string, an array or an object. JavaScript numbers are idealised as reals.
  Reading a property yields \<^verbatim>\<open>undefined\<close> when it is absent; \<^verbatim>\<open>undefined\<close> is
  \<open>None\<close> in a \<open>json option\<close>.
\<close>

datatype json =
    JNull
  | JBool bool
  | JNum real
  | JStr string
  | JArr "json list"
  | JObj "(string \<times> json) list"

text \<open>
  What the code can catch: an object that is an instance of \<^verbatim>\<open>Error\<close> (with its
  \<^verbatim>\<open>name\<close> and \<^verbatim>\<open>message\<close>), or any other thrown value.
\<close>

datatype thrown =
    JsError (err_name: string) (err_message: json)
  | NonError

text \<open>
  \<^verbatim>\<open>new Error(v)\<close>. JavaScript stores the string conversion of \<open>v\<close> as the
  message; the conversion is the identity on strings, and the model keeps \<open>v\<close> itself.
\<close>

definition new_Error :: "json \<Rightarrow> thrown" where
  "new_Error v = JsError ''Error'' v"

text \<open>
  \<^verbatim>\<open>v.key\<close> for the keys the client reads (\<^verbatim>\<open>data\<close>, \<^verbatim>\<open>message\<close>,
  \<^verbatim>\<open>errors\<close>; none of them is inherited by a primitive or an array). On
  \<^verbatim>\<open>null\<close> the access throws a TypeError (message in the wording of V8). An object
  parsed from JSON keeps the last of several equal keys.
\<close>

definition get_prop :: "string \<Rightarrow> json \<Rightarrow> thrown + json option" where
  "get_prop key v =
     (case v of
        JNull \<Rightarrow> Inl (JsError ''TypeError''
                  (JStr (''Cannot read properties of null (reading '' @ [CHR 39] @ key @ [CHR 39] @ '')'')))
      | JObj kvs \<Rightarrow> Inr (map_of (rev kvs) key)
      | _ \<Rightarrow> Inr None)"

text \<open>The value of the property where the read does not throw.\<close>

definition field :: "string \<Rightarrow> json \<Rightarrow> json option" where
  "field key body = (case get_prop key body of Inl e \<Rightarrow> None | Inr v \<Rightarrow> v)"

text \<open>Truthiness of a value that may be \<^verbatim>\<open>undefined\<close>.\<close>

fun truthy :: "json option \<Rightarrow> bool" where
  "truthy None = False"
| "truthy (Some JNull) = False"
| "truthy (Some (JBool b)) = b"
| "truthy (Some (JNum n)) = (n \<noteq> 0)"
| "truthy (Some (JStr s)) = (s \<noteq> [])"
| "truthy (Some (JArr xs)) = True"
| "truthy (Some (JObj kvs)) = True"

text \<open>\<^verbatim>\<open>a || b\<close> where \<^verbatim>\<open>b\<close> is defined.\<close>

definition js_or :: "json option \<Rightarrow> json \<Rightarrow> json" where
  "js_or a b = (case a of None \<Rightarrow> b | Some v \<Rightarrow> if truthy a then v else b)"

section \<open>Transport client (api.config.ts, api.client.ts)\<close>

definition API_TIMEOUT :: nat where
  "API_TIMEOUT = 10000"

definition INTERNAL_SERVER_ERROR :: nat where
  "INTERNAL_SERVER_ERROR = 500"

text \<open>\<^verbatim>\<open>ApiResponse<T>\<close>: \<^verbatim>\<open>data\<close> and \<^verbatim>\<open>errors\<close> are optional fields.\<close>

record 'a envelope =
  data :: "'a option"
  message :: json
  status :: nat
  errors :: "json option"

record api_client =
  baseURL :: string
  timeout :: nat

text \<open>
  \<^verbatim>\<open>new ApiClient()\<close>: the base URL comes from the build environment, the timeout
  defaults to \<^verbatim>\<open>API_TIMEOUT\<close>.
\<close>

definition apiClient :: "string \<Rightarrow> api_client" where
  "apiClient base = \<lparr>baseURL = base, timeout = API_TIMEOUT\<rparr>"

text \<open>
  What the network does with one request. \<open>settled_ms\<close> is the time, in milliseconds after
  the call, at which the promise of \<^verbatim>\<open>fetch\<close> settles by itself (\<open>None\<close>: it never
  does), and \<open>fetched\<close> is how: rejected with a thrown value, or resolved with a response
  once its headers are there. \<open>abort_text\<close> is the message the runtime gives the
  AbortError of an aborted fetch. A response has its status and the outcome of
  \<^verbatim>\<open>response.json()\<close>: the read of the body never finishes, or it finishes at a time
  after the call with a parse failure or the parsed body.
\<close>

datatype body_read = Stalled | Finished nat "thrown + json"

record http_response =
  http_status :: nat
  json_read :: body_read

record exchange =
  settled_ms :: "nat option"
  fetched :: "thrown + http_response"
  abort_text :: string

text \<open>\<^verbatim>\<open>response.ok\<close>\<close>

definition ok :: "http_response \<Rightarrow> bool" where
  "ok r = (200 \<le> http_status r \<and> http_status r \<le> 299)"

text \<open>
  \<^verbatim>\<open>await fetch(url, {..., signal: controller.signal})\<close> under
  \<^verbatim>\<open>setTimeout(() => controller.abort(), this.timeout)\<close>: when the timer fires before
  fetch has settled, the request is aborted and fetch rejects with an AbortError.
  Once fetch has settled the code calls \<^verbatim>\<open>clearTimeout\<close>: the timer is gone before
  the body is read.
\<close>

definition timer_fires :: "api_client \<Rightarrow> exchange \<Rightarrow> bool" where
  "timer_fires c x = (case settled_ms x of None \<Rightarrow> True | Some t \<Rightarrow> timeout c < t)"

definition abort_error :: "exchange \<Rightarrow> thrown" where
  "abort_error x = JsError ''AbortError'' (JStr (abort_text x))"

definition await_fetch :: "api_client \<Rightarrow> exchange \<Rightarrow> thrown + http_response" where
  "await_fetch c x = (if timer_fires c x then Inl (abort_error x) else fetched x)"

text \<open>
  The object that \<^verbatim>\<open>request\<close> and \<^verbatim>\<open>upload\<close> build from the parsed body, the
  same up to their two default messages: the failure object when the response is not
  ok, the success object otherwise. The properties are read in the order of the object
  literal.
\<close>

definition envelope_of ::
  "string \<Rightarrow> string \<Rightarrow> http_response \<Rightarrow> json \<Rightarrow> thrown + json envelope"
where
  "envelope_of failed_default success_default response responseData =
     (if \<not> ok response then
        (case get_prop ''message'' responseData of
           Inl e \<Rightarrow> Inl e
         | Inr m \<Rightarrow>
             (case get_prop ''errors'' responseData of
                Inl e \<Rightarrow> Inl e
              | Inr es \<Rightarrow>
                  Inr \<lparr>data = None,
                       message = js_or m (JStr failed_default),
                       status = http_status response,
                       errors = Some (js_or es (JArr []))\<rparr>))
      else
        (case get_prop ''data'' responseData of
           Inl e \<Rightarrow> Inl e
         | Inr d \<Rightarrow>
             (case get_prop ''message'' responseData of
                Inl e \<Rightarrow> Inl e
              | Inr m \<Rightarrow>
                  Inr \<lparr>data = Some (js_or d responseData),
                       message = js_or m (JStr success_default),
                       status = http_status response,
                       errors = None\<rparr>)))"

text \<open>
  The part of the \<^verbatim>\<open>try\<close> block after \<^verbatim>\<open>await fetch\<close>:
  \<^verbatim>\<open>await response.json()\<close>, then the object. \<open>None\<close> is a promise that never
  settles: nothing bounds the read of the body.
\<close>

definition normalise ::
  "string \<Rightarrow> string \<Rightarrow> http_response \<Rightarrow> (thrown + json envelope) option"
where
  "normalise failed_default success_default response =
     (case json_read response of
        Stalled \<Rightarrow> None
      | Finished t (Inl e) \<Rightarrow> Some (Inl e)
      | Finished t (Inr responseData) \<Rightarrow>
          Some (envelope_of failed_default success_default response responseData))"

text \<open>The \<^verbatim>\<open>try\<close> block of \<^verbatim>\<open>ApiClient.request\<close>.\<close>

definition request_try :: "api_client \<Rightarrow> exchange \<Rightarrow> (thrown + json envelope) option" where
  "request_try c x =
     (case await_fetch c x of
        Inl e \<Rightarrow> Some (Inl e)
      | Inr response \<Rightarrow> normalise ''Request failed'' ''Success'' response)"

text \<open>The \<^verbatim>\<open>catch\<close> block of \<^verbatim>\<open>ApiClient.request\<close>.\<close>

definition request_catch :: "thrown \<Rightarrow> thrown + json envelope" where
  "request_catch error =
     (case error of
        JsError name msg \<Rightarrow>
          if name = ''AbortError'' then
            Inr \<lparr>data = None, message = JStr ''Request timeout'',
                 status = INTERNAL_SERVER_ERROR, errors = None\<rparr>
          else
            Inr \<lparr>data = None,
                 message = js_or (Some msg) (JStr ''Network error''),
                 status = INTERNAL_SERVER_ERROR, errors = None\<rparr>
      | NonError \<Rightarrow>
          Inr \<lparr>data = None, message = JStr ''Unknown error occurred'',
               status = INTERNAL_SERVER_ERROR, errors = None\<rparr>)"

text \<open>
  \<^verbatim>\<open>ApiClient.request\<close>: \<open>None\<close> when its promise never settles, \<open>Some (Inr r)\<close>
  when it resolves with the Envelope \<open>r\<close>; \<open>Some (Inl e)\<close> would be an exception that
  escapes to the caller.
\<close>

definition request :: "api_client \<Rightarrow> exchange \<Rightarrow> (thrown + json envelope) option" where
  "request c x =
     (case request_try c x of
        None \<Rightarrow> None
      | Some (Inl e) \<Rightarrow> Some (request_catch e)
      | Some (Inr r) \<Rightarrow> Some (Inr r))"

text \<open>\<^verbatim>\<open>ApiClient.upload\<close>: the same shape, with its own messages and no timeout case.\<close>

definition upload_try :: "api_client \<Rightarrow> exchange \<Rightarrow> (thrown + json envelope) option" where
  "upload_try c x =
     (case await_fetch c x of
        Inl e \<Rightarrow> Some (Inl e)
      | Inr response \<Rightarrow> normalise ''Upload failed'' ''Upload successful'' response)"

definition upload_catch :: "thrown \<Rightarrow> thrown + json envelope" where
  "upload_catch error =
     (case error of
        JsError name msg \<Rightarrow>
          Inr \<lparr>data = None,
               message = js_or (Some msg) (JStr ''Upload error''),
               status = INTERNAL_SERVER_ERROR, errors = None\<rparr>
      | NonError \<Rightarrow>
          Inr \<lparr>data = None, message = JStr ''Unknown upload error occurred'',
               status = INTERNAL_SERVER_ERROR, errors = None\<rparr>)"

definition upload :: "api_client \<Rightarrow> exchange \<Rightarrow> (thrown + json envelope) option" where
  "upload c x =
     (case upload_try c x of
        None \<Rightarrow> None
      | Some (Inl e) \<Rightarrow> Some (upload_catch e)
      | Some (Inr r) \<Rightarrow> Some (Inr r))"



text \<open>
  The response normalisation in the words of the specification, for comparison with
  \<open>envelope_of\<close>: \<^verbatim>\<open>a ?? b\<close> is \<open>b\<close> only when \<open>a\<close> is \<^verbatim>\<open>undefined\<close> or
  \<^verbatim>\<open>null\<close>, and the success range is 200 to 299.
\<close>

definition nullish_or :: "json option \<Rightarrow> json \<Rightarrow> json" where
  "nullish_or a b = (case a of None \<Rightarrow> b | Some JNull \<Rightarrow> b | Some v \<Rightarrow> v)"

definition spec_envelope :: "nat \<Rightarrow> json \<Rightarrow> json envelope" where
  "spec_envelope st body =
     (if 200 \<le> st \<and> st \<le> 299 then
        \<lparr>data = Some (nullish_or (field ''data'' body) body),
         message = nullish_or (field ''message'' body) (JStr ''Success''),
         status = st, errors = None\<rparr>
      else
        \<lparr>data = None,
         message = nullish_or (field ''message'' body) (JStr ''Request failed''),
         status = st,
         errors = Some (nullish_or (field ''errors'' body) (JArr []))\<rparr>)"

section \<open>Resource services\<close>

text \<open>
  A service method passes the Envelope of its transport call through one of two checks.
  Most methods return \<^verbatim>\<open>response.data\<close> when it is truthy and otherwise throw
  \<^verbatim>\<open>new Error(response.message || '<default>')\<close>; the methods without a result throw
  the same error unless the status is 200 or 204.
\<close>

definition unwrap_data :: "string \<Rightarrow> json envelope \<Rightarrow> thrown + json" where
  "unwrap_data default_message response =
     (case data response of
        Some d \<Rightarrow>
          if truthy (Some d) then Inr d
          else Inl (new_Error (js_or (Some (message response)) (JStr default_message)))
      | None \<Rightarrow> Inl (new_Error (js_or (Some (message response)) (JStr default_message))))"

definition require_status :: "string \<Rightarrow> json envelope \<Rightarrow> thrown + unit" where
  "require_status default_message response =
     (if status response \<noteq> 200 \<and> status response \<noteq> 204
      then Inl (new_Error (js_or (Some (message response)) (JStr default_message)))
      else Inr ())"

datatype check = ByData | ByStatus

text \<open>
  Every method of the six services that receives an Envelope from the transport client
  itself, with its check and its default message.
\<close>

definition resource_methods :: "(string \<times> check \<times> string) list" where
  "resource_methods =
    [(''CartService.getCart'', ByData, ''Failed to fetch cart''),
     (''CartService.addToCart'', ByData, ''Failed to add item to cart''),
     (''CartService.updateCartItem'', ByData, ''Failed to update cart item''),
     (''CartService.removeFromCart'', ByData, ''Failed to remove item from cart''),
     (''CartService.clearCart'', ByStatus, ''Failed to clear cart''),
     (''CartService.applyPromoCode'', ByData, ''Failed to apply promo code''),
     (''CartService.removePromoCode'', ByData, ''Failed to remove promo code''),
     (''CartService.calculateShipping'', ByData, ''Failed to calculate shipping''),
     (''CartService.mergeCart'', ByData, ''Failed to merge cart''),
     (''UserService.getWishlist'', ByData, ''Failed to fetch wishlist''),
     (''UserService.addToWishlist'', ByData, ''Failed to add to wishlist''),
     (''UserService.removeFromWishlist'', ByData, ''Failed to remove from wishlist''),
     (''UserService.moveToCart'', ByStatus, ''Failed to move to cart''),
     (''UserService.getProfile'', ByData, ''Failed to fetch profile''),
     (''UserService.updateProfile'', ByData, ''Failed to update profile''),
     (''UserService.changePassword'', ByStatus, ''Failed to change password''),
     (''UserService.deleteAccount'', ByStatus, ''Failed to delete account''),
     (''UserService.getNotifications'', ByData, ''Failed to fetch notifications''),
     (''UserService.markNotificationRead'', ByStatus, ''Failed to mark notification as read''),
     (''UserService.markAllNotificationsRead'', ByStatus,
        ''Failed to mark all notifications as read''),
     (''UserService.deleteNotification'', ByStatus, ''Failed to delete notification''),
     (''UserService.getNotificationPreferences'', ByData,
        ''Failed to fetch notification preferences''),
     (''UserService.updateNotificationPreferences'', ByData,
        ''Failed to update notification preferences''),
     (''UserService.getUserStats'', ByData, ''Failed to fetch user statistics''),
     (''OrderService.createOrder'', ByData, ''Failed to create order''),
     (''OrderService.getOrders'', ByData, ''Failed to fetch orders''),
     (''OrderService.getOrderById'', ByData, ''Failed to fetch order''),
     (''OrderService.trackOrder'', ByData, ''Failed to track order''),
     (''OrderService.cancelOrder'', ByData, ''Failed to cancel order''),
     (''OrderService.requestRefund'', ByData, ''Failed to request refund''),
     (''OrderService.getOrderStats'', ByData, ''Failed to fetch order statistics''),
     (''OrderService.reorderItems'', ByStatus, ''Failed to reorder items''),
     (''OrderService.updateShippingAddress'', ByData, ''Failed to update shipping address''),
     (''OrderService.addOrderNote'', ByData, ''Failed to add order note''),
     (''AddressService.getAddresses'', ByData, ''Failed to fetch addresses''),
     (''AddressService.createAddress'', ByData, ''Failed to create address''),
     (''AddressService.updateAddress'', ByData, ''Failed to update address''),
     (''AddressService.deleteAddress'', ByStatus, ''Failed to delete address''),
     (''AddressService.setDefaultAddress'', ByData, ''Failed to set default address''),
     (''AddressService.getAddressById'', ByData, ''Failed to fetch address''),
     (''AddressService.validateAddress'', ByData, ''Failed to validate address''),
     (''AddressService.getAddressSuggestions'', ByData, ''Failed to get address suggestions''),
     (''AddressService.getCountries'', ByData, ''Failed to fetch countries''),
     (''AddressService.getStates'', ByData, ''Failed to fetch states''),
     (''AddressService.getCities'', ByData, ''Failed to fetch cities''),
     (''AddressService.calculateShippingCost'', ByData, ''Failed to calculate shipping cost''),
     (''AddressService.checkServiceability'', ByData, ''Failed to check serviceability''),
     (''ReturnService.createReturn'', ByData, ''Failed to create return request''),
     (''ReturnService.getReturns'', ByData, ''Failed to fetch returns''),
     (''ReturnService.getReturnById'', ByData, ''Failed to fetch return''),
     (''ReturnService.updateReturn'', ByData, ''Failed to update return''),
     (''ReturnService.cancelReturn'', ByData, ''Failed to cancel return''),
     (''ReturnService.getReturnPolicy'', ByData, ''Failed to fetch return policy''),
     (''ReturnService.getReturnLabel'', ByData, ''Failed to fetch return label''),
     (''ReturnService.trackReturn'', ByData, ''Failed to track return''),
     (''ReturnService.addReturnNote'', ByData, ''Failed to add return note''),
     (''ReturnService.checkReturnEligibility'', ByData, ''Failed to check return eligibility''),
     (''ReturnService.getReturnStats'', ByData, ''Failed to fetch return statistics''),
     (''ReturnService.getReturnReasons'', ByData, ''Failed to fetch return reasons''),
     (''ProductService.getProducts'', ByData, ''Failed to fetch products''),
     (''ProductService.getProductById'', ByData, ''Failed to fetch product''),
     (''ProductService.searchProducts'', ByData, ''Failed to search products''),
     (''ProductService.getCategories'', ByData, ''Failed to fetch categories''),
     (''ProductService.getFeaturedProducts'', ByData, ''Failed to fetch featured products''),
     (''ProductService.getBestsellers'', ByData, ''Failed to fetch bestsellers'')]"

text \<open>
  The outcome of such a method on the Envelope it received: the returned value
  (\<^verbatim>\<open>undefined\<close> for a method without result) or the thrown error.
\<close>

definition settle :: "check \<Rightarrow> string \<Rightarrow> json envelope \<Rightarrow> thrown + json option" where
  "settle chk default_message response =
     (case chk of
        ByData \<Rightarrow> map_sum id Some (unwrap_data default_message response)
      | ByStatus \<Rightarrow> map_sum id (\<lambda>_. None) (require_status default_message response))"

subsection \<open>Cart and wishlist as the services type them\<close>

record CartItem =
  item_id :: string
  productId :: string
  product :: json
  quantity :: real
  item_size :: string
  color :: string
  price :: real
  addedAt :: string

record Cart =
  cart_id :: string
  userId :: string
  items :: "CartItem list"
  subtotal :: real
  shipping :: real
  tax :: real
  total :: real
  createdAt :: string
  updatedAt :: string

record WishlistItem =
  wi_id :: string
  wi_productId :: string
  wi_product :: json
  wi_addedAt :: string

record Wishlist =
  wl_id :: string
  wl_userId :: string
  wl_items :: "WishlistItem list"
  wl_createdAt :: string
  wl_updatedAt :: string

text \<open>
  \<^verbatim>\<open>CartService.getCart\<close> and \<^verbatim>\<open>UserService.getWishlist\<close>. The type argument of
  \<^verbatim>\<open>apiClient.get<Cart>\<close> is an unchecked assertion about the parsed JSON; it is the
  parameter \<open>as_cart\<close> (\<open>as_wishlist\<close>) of the model.
\<close>

definition getCart :: "(json \<Rightarrow> Cart) \<Rightarrow> json envelope \<Rightarrow> thrown + Cart" where
  "getCart as_cart response = map_sum id as_cart (unwrap_data ''Failed to fetch cart'' response)"

definition getWishlist :: "(json \<Rightarrow> Wishlist) \<Rightarrow> json envelope \<Rightarrow> thrown + Wishlist" where
  "getWishlist as_wishlist response =
     map_sum id as_wishlist (unwrap_data ''Failed to fetch wishlist'' response)"

text \<open>\<^verbatim>\<open>CartService.getCartItemCount\<close>, \<^verbatim>\<open>isProductInCart\<close>, \<^verbatim>\<open>getCartItem\<close>\<close>

definition getCartItemCount :: "(json \<Rightarrow> Cart) \<Rightarrow> json envelope \<Rightarrow> thrown + real" where
  "getCartItemCount as_cart response =
     (case getCart as_cart response of
        Inl e \<Rightarrow> Inl e
      | Inr cart \<Rightarrow> Inr (foldl (\<lambda>total item. total + quantity item) 0 (items cart)))"

definition isProductInCart ::
  "(json \<Rightarrow> Cart) \<Rightarrow> string \<Rightarrow> string option \<Rightarrow> string option \<Rightarrow> json envelope \<Rightarrow> thrown + bool"
where
  "isProductInCart as_cart pid size_opt color_opt response =
     (case getCart as_cart response of
        Inl e \<Rightarrow> Inl e
      | Inr cart \<Rightarrow>
          Inr (list_ex (\<lambda>item.
                 productId item = pid \<and>
                 (size_opt \<in> {None, Some []} \<or> Some (item_size item) = size_opt) \<and>
                 (color_opt \<in> {None, Some []} \<or> Some (color item) = color_opt))
               (items cart)))"

definition getCartItem ::
  "(json \<Rightarrow> Cart) \<Rightarrow> string \<Rightarrow> string \<Rightarrow> string \<Rightarrow> json envelope \<Rightarrow> thrown + CartItem option"
where
  "getCartItem as_cart pid sz col response =
     (case getCart as_cart response of
        Inl e \<Rightarrow> Inl e
      | Inr cart \<Rightarrow>
          Inr (find (\<lambda>item. productId item = pid \<and> item_size item = sz \<and> color item = col)
                 (items cart)))"

text \<open>
  \<^verbatim>\<open>UserService.isProductInWishlist\<close>: the call of \<^verbatim>\<open>getWishlist\<close> is inside
  \<^verbatim>\<open>try\<close>, and the \<^verbatim>\<open>catch\<close> returns \<^verbatim>\<open>false\<close>.
\<close>

definition isProductInWishlist ::
  "(json \<Rightarrow> Wishlist) \<Rightarrow> string \<Rightarrow> json envelope \<Rightarrow> thrown + bool"
where
  "isProductInWishlist as_wishlist pid response =
     (case getWishlist as_wishlist response of
        Inr wishlist \<Rightarrow> Inr (list_ex (\<lambda>item. wi_productId item = pid) (wl_items wishlist))
      | Inl error \<Rightarrow> Inr False)"

text \<open>
  The remaining methods that are composed of other service methods. \<open>as_addresses\<close> and
  \<open>as_products\<close> are the type assertions again, and the fields read are parameters
  (\<open>isDefault\<close> of an address, \<open>product_id\<close> of a product).
\<close>

text \<open>\<^verbatim>\<open>AddressService.getDefaultAddress\<close>: fetch all addresses, find the default one.\<close>

definition getDefaultAddress ::
  "(json \<Rightarrow> 'a list) \<Rightarrow> ('a \<Rightarrow> bool) \<Rightarrow> json envelope \<Rightarrow> thrown + 'a option"
where
  "getDefaultAddress as_addresses isDefault response =
     (case unwrap_data ''Failed to fetch addresses'' response of
        Inl e \<Rightarrow> Inl e
      | Inr addrs \<Rightarrow> Inr (find isDefault (as_addresses addrs)))"

text \<open>
  \<^verbatim>\<open>AddressService.duplicateAddress\<close>: \<^verbatim>\<open>getAddressById\<close>, then
  \<^verbatim>\<open>createAddress\<close> with the copied fields; \<open>found\<close> and \<open>created\<close> are the
  Envelopes of the two transport calls.
\<close>

definition duplicateAddress :: "json envelope \<Rightarrow> json envelope \<Rightarrow> thrown + json" where
  "duplicateAddress found created =
     (case unwrap_data ''Failed to fetch address'' found of
        Inl e \<Rightarrow> Inl e
      | Inr originalAddress \<Rightarrow> unwrap_data ''Failed to create address'' created)"

text \<open>
  \<^verbatim>\<open>ProductService.getProducts\<close>, \<^verbatim>\<open>getProductById\<close>, and the methods that call
  them: \<^verbatim>\<open>getProductsByCategory\<close> and \<^verbatim>\<open>getProductsByBrand\<close> are
  \<^verbatim>\<open>getProducts\<close> with one more filter, \<^verbatim>\<open>getRelatedProducts\<close> fetches the product
  and then a page of its category, from which it drops the product itself.
\<close>

definition getProducts :: "json envelope \<Rightarrow> thrown + json" where
  "getProducts response = unwrap_data ''Failed to fetch products'' response"

definition getProductById :: "json envelope \<Rightarrow> thrown + json" where
  "getProductById response = unwrap_data ''Failed to fetch product'' response"

definition getProductsByCategory :: "json envelope \<Rightarrow> thrown + json" where
  "getProductsByCategory response = getProducts response"

definition getProductsByBrand :: "json envelope \<Rightarrow> thrown + json" where
  "getProductsByBrand response = getProducts response"

definition getRelatedProducts ::
  "(json \<Rightarrow> 'p list) \<Rightarrow> ('p \<Rightarrow> string) \<Rightarrow> string \<Rightarrow> nat \<Rightarrow> json envelope \<Rightarrow> json envelope
     \<Rightarrow> thrown + 'p list"
where
  "getRelatedProducts as_products product_id pid limit found listed =
     (case getProductById found of
        Inl e \<Rightarrow> Inl e
      | Inr this_product \<Rightarrow>
          (case getProducts listed of
             Inl e \<Rightarrow> Inl e
           | Inr response \<Rightarrow>
               Inr (take limit (filter (\<lambda>p. product_id p \<noteq> pid) (as_products response)))))"

section \<open>Aggregate state container (ShopContext)\<close>

subsection \<open>State\<close>

text \<open>
  Orders, returns and addresses are stored and handed on by the container, which never
  reads inside them: they stay parsed JSON.
\<close>

type_synonym Order = json
type_synonym Return = json
type_synonym Address = json

record Notification =
  n_id :: string
  n_type :: string
  title :: string
  n_message :: string
  read :: bool
  n_createdAt :: string
  n_data :: "json option"

record UserProfile =
  p_id :: string
  p_email :: string
  firstName :: string
  lastName :: string
  phoneNumber :: "string option"
  dateOfBirth :: "string option"
  gender :: "string option"
  avatar :: "string option"
  emailVerified :: bool
  p_createdAt :: string
  p_updatedAt :: string

text \<open>
  \<^verbatim>\<open>User\<close>. \<open>spread\<close> holds the profile whose properties \<^verbatim>\<open>updateUser\<close> has copied
  into the object with \<^verbatim>\<open>{...prev, ...updatedProfile}\<close>, if any.
\<close>

record User =
  u_id :: string
  name :: string
  email :: string
  phone :: "string option"
  addresses :: "Address list"
  spread :: "UserProfile option"

datatype promo_type = Percentage | Fixed

record PromoCode =
  code :: string
  discount :: real
  type :: promo_type

record OrderListResponse =
  resp_orders :: "Order list"
  orders_total :: real
  orders_page :: real
  orders_limit :: real
  orders_totalPages :: real

record ReturnListResponse =
  resp_returns :: "Return list"
  returns_total :: real
  returns_page :: real
  returns_limit :: real
  returns_totalPages :: real

record NotificationListResponse =
  resp_notifications :: "Notification list"
  notifications_total :: real
  unreadCount :: real
  notifications_page :: real
  notifications_limit :: real
  notifications_totalPages :: real

record OrderLine =
  line_productId :: string
  line_quantity :: real
  line_size :: string
  line_color :: string

record CreateOrderRequest =
  order_items :: "OrderLine list"
  shippingAddressId :: string
  paymentMethod :: string

text \<open>The calls of service methods that the container issues, with their arguments.\<close>

datatype service_call =
    GetProfile
  | GetCart
  | GetWishlist
  | GetOrders nat nat
  | GetReturns nat nat
  | GetNotifications nat nat
  | GetAddresses
  | AddToCart string real string string
  | RemoveFromCart string
  | UpdateCartItem string real
  | ClearCart
  | IsProductInWishlist string
  | RemoveFromWishlist string
  | AddToWishlist string
  | UpdateProfile json
  | CreateAddress json
  | UpdateAddress string json
  | DeleteAddress string
  | SetDefaultAddress string
  | CreateOrder CreateOrderRequest
  | CreateReturn string "json list" string string
  | MarkNotificationRead string
  | ApplyPromoCode string
  | RemovePromoCode

text \<open>\<^verbatim>\<open>toast.success(text)\<close> and \<^verbatim>\<open>toast.error(errorMessage)\<close>\<close>

datatype notice = ToastSuccess string | ToastError json

text \<open>
  The state of the provider (the nine \<^verbatim>\<open>useState\<close> cells), followed by what the
  container has done to the outside: the notices shown, the service calls issued and the
  lines written with \<^verbatim>\<open>console.error\<close>, each in order.
\<close>

record shop =
  cart :: "Cart option"
  wishlist :: "Wishlist option"
  user :: "User option"
  orders :: "Order list"
  returns :: "Return list"
  notifications :: "Notification list"
  appliedPromo :: "PromoCode option"
  loading :: bool
  error :: "json option"
  toasts :: "notice list"
  calls :: "service_call list"
  console :: "(string \<times> thrown) list"

text \<open>The state of the first render: the initial values of the \<^verbatim>\<open>useState\<close> cells.\<close>

definition initial :: shop where
  "initial =
     \<lparr>cart = None, wishlist = None, user = None, orders = [], returns = [],
      notifications = [], appliedPromo = None, loading = False, error = None,
      toasts = [], calls = [], console = []\<rparr>"

text \<open>
  How the backend answers the service methods during one invocation of a container
  method: each service method is called at most once there, and its promise resolves
  (\<open>Inr\<close>) or rejects (\<open>Inl\<close>).
\<close>

record backend =
  getProfile_reply :: "thrown + UserProfile"
  getCart_reply :: "thrown + Cart"
  getWishlist_reply :: "thrown + Wishlist"
  getOrders_reply :: "thrown + OrderListResponse"
  getReturns_reply :: "thrown + ReturnListResponse"
  getNotifications_reply :: "thrown + NotificationListResponse"
  getAddresses_reply :: "thrown + Address list"
  addToCart_reply :: "thrown + Cart"
  removeFromCart_reply :: "thrown + Cart"
  updateCartItem_reply :: "thrown + Cart"
  clearCart_reply :: "thrown + unit"
  isProductInWishlist_reply :: "thrown + bool"
  removeFromWishlist_reply :: "thrown + Wishlist"
  addToWishlist_reply :: "thrown + Wishlist"
  updateProfile_reply :: "thrown + UserProfile"
  createAddress_reply :: "thrown + Address"
  updateAddress_reply :: "thrown + Address"
  deleteAddress_reply :: "thrown + unit"
  setDefaultAddress_reply :: "thrown + Address list"
  createOrder_reply :: "thrown + Order"
  createReturn_reply :: "thrown + Return"
  markNotificationRead_reply :: "thrown + unit"
  applyPromoCode_reply :: "thrown + Cart"
  removePromoCode_reply :: "thrown + Cart"

text \<open>What the authentication provider reports (\<^verbatim>\<open>useAuth\<close>, \<^verbatim>\<open>useUser\<close>).\<close>

record auth =
  isSignedIn :: bool
  clerkUser :: "json option"
  auth_userId :: "string option"

subsection \<open>Effects\<close>

definition toast_success :: "string \<Rightarrow> shop \<Rightarrow> shop" where
  "toast_success text s = s\<lparr>toasts := toasts s @ [ToastSuccess text]\<rparr>"

definition toast_error :: "json \<Rightarrow> shop \<Rightarrow> shop" where
  "toast_error errorMessage s = s\<lparr>toasts := toasts s @ [ToastError errorMessage]\<rparr>"

definition issue :: "service_call \<Rightarrow> shop \<Rightarrow> shop" where
  "issue c s = s\<lparr>calls := calls s @ [c]\<rparr>"

definition console_error :: "string \<Rightarrow> thrown \<Rightarrow> shop \<Rightarrow> shop" where
  "console_error label e s = s\<lparr>console := console s @ [(label, e)]\<rparr>"

text \<open>\<^verbatim>\<open>error instanceof Error ? error.message : '<default>'\<close>\<close>

definition error_message :: "thrown \<Rightarrow> string \<Rightarrow> json" where
  "error_message e default_message =
     (case e of JsError n m \<Rightarrow> m | NonError \<Rightarrow> JStr default_message)"

text \<open>
  The \<^verbatim>\<open>catch\<close> and \<^verbatim>\<open>finally\<close> blocks that the mutation methods with a busy
  flag share: show the error, throw it again, clear the flag.
\<close>

definition rethrow :: "string \<Rightarrow> thrown \<Rightarrow> shop \<Rightarrow> (thrown + 'a) \<times> shop" where
  "rethrow default_message e s =
     (Inl e, (toast_error (error_message e default_message) s)\<lparr>loading := False\<rparr>)"

subsection \<open>Load functions\<close>

text \<open>
  A function of the provider is a closure of one render: where its body names a state
  variable (\<^verbatim>\<open>cart\<close>, \<^verbatim>\<open>user\<close>, \<^verbatim>\<open>appliedPromo\<close>) it reads the value of the
  render that created the function, whatever has been set since. That render is the
  argument \<open>r\<close>; the argument \<open>s\<close> is the state being updated, which the setters write
  and which the functional updates (\<^verbatim>\<open>setOrders(prev => ...)\<close>) read.
\<close>

definition loadCart :: "backend \<Rightarrow> shop \<Rightarrow> shop" where
  "loadCart b s =
     (let s = issue GetCart s in
      case getCart_reply b of
        Inr cartData \<Rightarrow> s\<lparr>cart := Some cartData\<rparr>
      | Inl e \<Rightarrow> console_error ''Error loading cart:'' e s)"

definition loadWishlist :: "backend \<Rightarrow> shop \<Rightarrow> shop" where
  "loadWishlist b s =
     (let s = issue GetWishlist s in
      case getWishlist_reply b of
        Inr wishlistData \<Rightarrow> s\<lparr>wishlist := Some wishlistData\<rparr>
      | Inl e \<Rightarrow> console_error ''Error loading wishlist:'' e s)"

definition loadOrders :: "backend \<Rightarrow> shop \<Rightarrow> shop" where
  "loadOrders b s =
     (let s = issue (GetOrders 1 50) s in
      case getOrders_reply b of
        Inr ordersData \<Rightarrow> s\<lparr>orders := resp_orders ordersData\<rparr>
      | Inl e \<Rightarrow> console_error ''Error loading orders:'' e s)"

definition loadReturns :: "backend \<Rightarrow> shop \<Rightarrow> shop" where
  "loadReturns b s =
     (let s = issue (GetReturns 1 50) s in
      case getReturns_reply b of
        Inr returnsData \<Rightarrow> s\<lparr>returns := resp_returns returnsData\<rparr>
      | Inl e \<Rightarrow> console_error ''Error loading returns:'' e s)"

definition loadNotifications :: "backend \<Rightarrow> shop \<Rightarrow> shop" where
  "loadNotifications b s =
     (let s = issue (GetNotifications 1 50) s in
      case getNotifications_reply b of
        Inr notificationsData \<Rightarrow> s\<lparr>notifications := resp_notifications notificationsData\<rparr>
      | Inl e \<Rightarrow> console_error ''Error loading notifications:'' e s)"

definition loadAddresses :: "shop \<Rightarrow> backend \<Rightarrow> shop \<Rightarrow> shop" where
  "loadAddresses r b s =
     (let s = issue GetAddresses s in
      case getAddresses_reply b of
        Inr addrs \<Rightarrow>
          (case user r of
             Some u \<Rightarrow> s\<lparr>user := Some (u\<lparr>addresses := addrs\<rparr>)\<rparr>
           | None \<Rightarrow> s)
      | Inl e \<Rightarrow> console_error ''Error loading addresses:'' e s)"

subsection \<open>Synchronising with the authentication state\<close>

text \<open>\<^verbatim>\<open>String.prototype.trim\<close> on the ASCII white space and line terminators.\<close>

definition is_space :: "char \<Rightarrow> bool" where
  "is_space ch = (ch \<in> set [CHR '' '', CHR 0x09, CHR 0x0A, CHR 0x0B, CHR 0x0C, CHR 0x0D])"

definition trim :: "string \<Rightarrow> string" where
  "trim str = rev (dropWhile is_space (rev (dropWhile is_space str)))"

text \<open>
  The effect \<^verbatim>\<open>syncUser\<close>, run after the render \<open>r\<close> in which the authentication
  state changed. The six loads of \<^verbatim>\<open>Promise.all\<close> are started in the order written,
  each issuing its service call at once; none of them rejects and each writes a state
  variable of its own, so the order in which they complete shows only in the order of
  the console lines, given here for the order in which they start.
\<close>

definition syncUser :: "shop \<Rightarrow> auth \<Rightarrow> backend \<Rightarrow> shop \<Rightarrow> shop" where
  "syncUser r a b s =
     (if isSignedIn a \<and> clerkUser a \<noteq> None \<and> auth_userId a \<notin> {None, Some []} then
        (let s = s\<lparr>loading := True\<rparr>;
             s = s\<lparr>error := None\<rparr>;
             s = issue GetProfile s
         in case getProfile_reply b of
              Inr userProfile \<Rightarrow>
                (let userData =
                       \<lparr>u_id = p_id userProfile,
                        name = trim (firstName userProfile @ '' '' @ lastName userProfile),
                        email = p_email userProfile,
                        phone = phoneNumber userProfile,
                        addresses = [],
                        spread = None\<rparr>;
                     s = s\<lparr>user := Some userData\<rparr>;
                     s = loadCart b s;
                     s = loadWishlist b s;
                     s = loadOrders b s;
                     s = loadReturns b s;
                     s = loadNotifications b s;
                     s = loadAddresses r b s
                 in s\<lparr>loading := False\<rparr>)
            | Inl err \<Rightarrow>
                (let errorMessage = error_message err ''Failed to load user data'';
                     s = s\<lparr>error := Some errorMessage\<rparr>;
                     s = toast_error errorMessage s
                 in s\<lparr>loading := False\<rparr>))
      else
        s\<lparr>user := None, cart := None, wishlist := None, orders := [], returns := [],
          notifications := [], appliedPromo := None\<rparr>)"

subsection \<open>Cart methods\<close>

definition addToCart ::
  "backend \<Rightarrow> string \<Rightarrow> string \<Rightarrow> string \<Rightarrow> real \<Rightarrow> shop \<Rightarrow> (thrown + unit) \<times> shop"
where
  "addToCart b pid sz col qty s =
     (let s = s\<lparr>loading := True\<rparr>;
          s = issue (AddToCart pid qty sz col) s
      in case addToCart_reply b of
           Inr _ \<Rightarrow>
             (let s = loadCart b s;
                  s = toast_success ''Item added to cart'' s
              in (Inr (), s\<lparr>loading := False\<rparr>))
         | Inl e \<Rightarrow> rethrow ''Failed to add item to cart'' e s)"

definition removeFromCart :: "backend \<Rightarrow> string \<Rightarrow> shop \<Rightarrow> (thrown + unit) \<times> shop" where
  "removeFromCart b itemId s =
     (let s = s\<lparr>loading := True\<rparr>;
          s = issue (RemoveFromCart itemId) s
      in case removeFromCart_reply b of
           Inr _ \<Rightarrow>
             (let s = loadCart b s;
                  s = toast_success ''Item removed from cart'' s
              in (Inr (), s\<lparr>loading := False\<rparr>))
         | Inl e \<Rightarrow> rethrow ''Failed to remove item from cart'' e s)"

definition updateCartQuantity ::
  "backend \<Rightarrow> string \<Rightarrow> real \<Rightarrow> shop \<Rightarrow> (thrown + unit) \<times> shop"
where
  "updateCartQuantity b itemId qty s =
     (let s = s\<lparr>loading := True\<rparr>;
          s = issue (UpdateCartItem itemId qty) s
      in case updateCartItem_reply b of
           Inr _ \<Rightarrow>
             (let s = loadCart b s
              in (Inr (), s\<lparr>loading := False\<rparr>))
         | Inl e \<Rightarrow> rethrow ''Failed to update cart'' e s)"

definition clearCart :: "backend \<Rightarrow> shop \<Rightarrow> (thrown + unit) \<times> shop" where
  "clearCart b s =
     (let s = s\<lparr>loading := True\<rparr>;
          s = issue ClearCart s
      in case clearCart_reply b of
           Inr _ \<Rightarrow>
             (let s = s\<lparr>cart := None\<rparr>;
                  s = toast_success ''Cart cleared'' s
              in (Inr (), s\<lparr>loading := False\<rparr>))
         | Inl e \<Rightarrow> rethrow ''Failed to clear cart'' e s)"

definition getTotalPrice :: "shop \<Rightarrow> real" where
  "getTotalPrice r =
     (case cart r of
        None \<Rightarrow> 0
      | Some c \<Rightarrow>
          (case appliedPromo r of
             None \<Rightarrow> total c
           | Some promo \<Rightarrow>
               if type promo = Percentage then total c * (1 - discount promo / 100)
               else max 0 (total c - discount promo)))"

definition getTotalItems :: "shop \<Rightarrow> real" where
  "getTotalItems r =
     (case cart r of
        None \<Rightarrow> 0
      | Some c \<Rightarrow> foldl (\<lambda>total item. total + quantity item) 0 (items c))"

subsection \<open>Wishlist and user methods\<close>

definition toggleWishlist :: "backend \<Rightarrow> string \<Rightarrow> shop \<Rightarrow> (thrown + unit) \<times> shop" where
  "toggleWishlist b pid s =
     (let s = s\<lparr>loading := True\<rparr>;
          s = issue (IsProductInWishlist pid) s
      in case isProductInWishlist_reply b of
           Inl e \<Rightarrow> rethrow ''Failed to update wishlist'' e s
         | Inr isInWishlist \<Rightarrow>
             if isInWishlist then
               (let s = issue (RemoveFromWishlist pid) s
                in case removeFromWishlist_reply b of
                     Inl e \<Rightarrow> rethrow ''Failed to update wishlist'' e s
                   | Inr _ \<Rightarrow>
                       (let s = toast_success ''Item removed from wishlist'' s;
                            s = loadWishlist b s
                        in (Inr (), s\<lparr>loading := False\<rparr>)))
             else
               (let s = issue (AddToWishlist pid) s
                in case addToWishlist_reply b of
                     Inl e \<Rightarrow> rethrow ''Failed to update wishlist'' e s
                   | Inr _ \<Rightarrow>
                       (let s = toast_success ''Item added to wishlist'' s;
                            s = loadWishlist b s
                        in (Inr (), s\<lparr>loading := False\<rparr>))))"

definition updateUser :: "backend \<Rightarrow> json \<Rightarrow> shop \<Rightarrow> (thrown + unit) \<times> shop" where
  "updateUser b profile_data s =
     (let s = s\<lparr>loading := True\<rparr>;
          s = issue (UpdateProfile profile_data) s
      in case updateProfile_reply b of
           Inr updatedProfile \<Rightarrow>
             (let s = s\<lparr>user :=
                        map_option
                          (\<lambda>prev. prev\<lparr>u_id := p_id updatedProfile,
                                       email := p_email updatedProfile,
                                       spread := Some updatedProfile\<rparr>)
                          (user s)\<rparr>;
                  s = toast_success ''Profile updated successfully'' s
              in (Inr (), s\<lparr>loading := False\<rparr>))
         | Inl e \<Rightarrow> rethrow ''Failed to update profile'' e s)"

subsection \<open>Address methods\<close>

definition addAddress :: "shop \<Rightarrow> backend \<Rightarrow> json \<Rightarrow> shop \<Rightarrow> (thrown + unit) \<times> shop" where
  "addAddress r b address s =
     (let s = s\<lparr>loading := True\<rparr>;
          s = issue (CreateAddress address) s
      in case createAddress_reply b of
           Inr _ \<Rightarrow>
             (let s = loadAddresses r b s;
                  s = toast_success ''Address added successfully'' s
              in (Inr (), s\<lparr>loading := False\<rparr>))
         | Inl e \<Rightarrow> rethrow ''Failed to add address'' e s)"

definition updateAddress ::
  "shop \<Rightarrow> backend \<Rightarrow> string \<Rightarrow> json \<Rightarrow> shop \<Rightarrow> (thrown + unit) \<times> shop"
where
  "updateAddress r b aid address s =
     (let s = s\<lparr>loading := True\<rparr>;
          s = issue (UpdateAddress aid address) s
      in case updateAddress_reply b of
           Inr _ \<Rightarrow>
             (let s = loadAddresses r b s;
                  s = toast_success ''Address updated successfully'' s
              in (Inr (), s\<lparr>loading := False\<rparr>))
         | Inl e \<Rightarrow> rethrow ''Failed to update address'' e s)"

definition deleteAddress :: "shop \<Rightarrow> backend \<Rightarrow> string \<Rightarrow> shop \<Rightarrow> (thrown + unit) \<times> shop" where
  "deleteAddress r b aid s =
     (let s = s\<lparr>loading := True\<rparr>;
          s = issue (DeleteAddress aid) s
      in case deleteAddress_reply b of
           Inr _ \<Rightarrow>
             (let s = loadAddresses r b s;
                  s = toast_success ''Address deleted successfully'' s
              in (Inr (), s\<lparr>loading := False\<rparr>))
         | Inl e \<Rightarrow> rethrow ''Failed to delete address'' e s)"

definition setDefaultAddress ::
  "shop \<Rightarrow> backend \<Rightarrow> string \<Rightarrow> shop \<Rightarrow> (thrown + unit) \<times> shop"
where
  "setDefaultAddress r b aid s =
     (let s = s\<lparr>loading := True\<rparr>;
          s = issue (SetDefaultAddress aid) s
      in case setDefaultAddress_reply b of
           Inr _ \<Rightarrow>
             (let s = loadAddresses r b s;
                  s = toast_success ''Default address updated'' s
              in (Inr (), s\<lparr>loading := False\<rparr>))
         | Inl e \<Rightarrow> rethrow ''Failed to set default address'' e s)"

subsection \<open>Order and return methods\<close>

definition createOrder ::
  "shop \<Rightarrow> backend \<Rightarrow> string \<Rightarrow> string \<Rightarrow> shop \<Rightarrow> (thrown + Order) \<times> shop"
where
  "createOrder r b payment addressId s =
     (let s = s\<lparr>loading := True\<rparr>
      in case cart r of
           None \<Rightarrow> rethrow ''Failed to create order'' (new_Error (JStr ''Cart is empty'')) s
         | Some c \<Rightarrow>
             (let orderData =
                    \<lparr>order_items =
                       map (\<lambda>item. \<lparr>line_productId = productId item,
                                     line_quantity = quantity item,
                                     line_size = item_size item,
                                     line_color = color item\<rparr>)
                           (items c),
                     shippingAddressId = addressId,
                     paymentMethod = payment\<rparr>;
                  s = issue (CreateOrder orderData) s
              in case createOrder_reply b of
                   Inr order \<Rightarrow>
                     (let s = s\<lparr>orders := order # orders s\<rparr>;
                          s = s\<lparr>cart := None\<rparr>;
                          s = s\<lparr>appliedPromo := None\<rparr>;
                          s = toast_success ''Order placed successfully!'' s
                      in (Inr order, s\<lparr>loading := False\<rparr>))
                 | Inl e \<Rightarrow> rethrow ''Failed to create order'' e s))"

definition createReturnRequest ::
  "backend \<Rightarrow> string \<Rightarrow> json list \<Rightarrow> string \<Rightarrow> shop \<Rightarrow> (thrown + unit) \<times> shop"
where
  "createReturnRequest b orderId return_items reason s =
     (let s = s\<lparr>loading := True\<rparr>;
          s = issue (CreateReturn orderId return_items reason ''original-payment'') s
      in case createReturn_reply b of
           Inr _ \<Rightarrow>
             (let s = loadReturns b s;
                  s = toast_success ''Return request submitted successfully'' s
              in (Inr (), s\<lparr>loading := False\<rparr>))
         | Inl e \<Rightarrow> rethrow ''Failed to create return request'' e s)"

subsection \<open>Notification and promo methods\<close>

definition markNotificationRead ::
  "backend \<Rightarrow> string \<Rightarrow> shop \<Rightarrow> (thrown + unit) \<times> shop"
where
  "markNotificationRead b nid s =
     (let s = issue (MarkNotificationRead nid) s
      in case markNotificationRead_reply b of
           Inr _ \<Rightarrow>
             (Inr (),
              s\<lparr>notifications :=
                   map (\<lambda>notif. if n_id notif = nid then notif\<lparr>read := True\<rparr> else notif)
                       (notifications s)\<rparr>)
         | Inl e \<Rightarrow>
             (Inl e, toast_error (error_message e ''Failed to mark notification as read'') s))"

text \<open>The promo codes built into the provider.\<close>

definition promoCodes :: "PromoCode list" where
  "promoCodes =
     [\<lparr>code = ''WELCOME10'', discount = 10, type = Percentage\<rparr>,
      \<lparr>code = ''SAVE20'', discount = 20, type = Percentage\<rparr>,
      \<lparr>code = ''FLAT50'', discount = 50, type = Fixed\<rparr>]"

text \<open>\<^verbatim>\<open>String.prototype.toLowerCase\<close> on ASCII letters.\<close>

definition toLowerCase :: "string \<Rightarrow> string" where
  "toLowerCase str =
     map (\<lambda>ch. if (65::nat) \<le> of_char ch \<and> of_char ch \<le> (90::nat)
                then char_of (of_char ch + (32::nat)) else ch) str"

definition applyPromoCode :: "backend \<Rightarrow> string \<Rightarrow> shop \<Rightarrow> (thrown + bool) \<times> shop" where
  "applyPromoCode b promo_code s =
     (let s = s\<lparr>loading := True\<rparr>;
          s = issue (ApplyPromoCode promo_code) s
      in case applyPromoCode_reply b of
           Inr _ \<Rightarrow>
             (let s = loadCart b s
              in case find (\<lambda>p. toLowerCase (code p) = toLowerCase promo_code) promoCodes of
                   Some promo \<Rightarrow>
                     (let s = s\<lparr>appliedPromo := Some promo\<rparr>;
                          s = toast_success ''Promo code applied successfully'' s
                      in (Inr True, s\<lparr>loading := False\<rparr>))
                 | None \<Rightarrow> (Inr False, s\<lparr>loading := False\<rparr>))
         | Inl e \<Rightarrow>
             (Inr False,
              (toast_error (error_message e ''Failed to apply promo code'') s)
                \<lparr>loading := False\<rparr>))"

definition removePromoCode :: "backend \<Rightarrow> shop \<Rightarrow> (thrown + unit) \<times> shop" where
  "removePromoCode b s =
     (let s = s\<lparr>loading := True\<rparr>;
          s = issue RemovePromoCode s
      in case removePromoCode_reply b of
           Inr _ \<Rightarrow>
             (let s = loadCart b s;
                  s = s\<lparr>appliedPromo := None\<rparr>;
                  s = toast_success ''Promo code removed'' s
              in (Inr (), s\<lparr>loading := False\<rparr>))
         | Inl e \<Rightarrow> rethrow ''Failed to remove promo code'' e s)"

subsection \<open>The mutation methods of the context value\<close>

datatype mutation =
    M_addToCart string string string real
  | M_removeFromCart string
  | M_updateCartQuantity string real
  | M_clearCart
  | M_toggleWishlist string
  | M_updateUser json
  | M_addAddress json
  | M_updateAddress string json
  | M_deleteAddress string
  | M_setDefaultAddress string
  | M_createOrder string string
  | M_createReturnRequest string "json list" string
  | M_markNotificationRead string
  | M_applyPromoCode string
  | M_removePromoCode

text \<open>What a method returned, when it did not throw.\<close>

datatype returned = Void | Flag bool | Placed Order

definition void :: "(thrown + unit) \<times> shop \<Rightarrow> (thrown + returned) \<times> shop" where
  "void p = (map_sum id (\<lambda>_. Void) (fst p), snd p)"

text \<open>A call of one of these methods, taken from the context value of render \<open>r\<close>.\<close>

fun invoke :: "shop \<Rightarrow> backend \<Rightarrow> mutation \<Rightarrow> shop \<Rightarrow> (thrown + returned) \<times> shop" where
  "invoke r b (M_addToCart pid sz col qty) s = void (addToCart b pid sz col qty s)"
| "invoke r b (M_removeFromCart itemId) s = void (removeFromCart b itemId s)"
| "invoke r b (M_updateCartQuantity itemId qty) s = void (updateCartQuantity b itemId qty s)"
| "invoke r b M_clearCart s = void (clearCart b s)"
| "invoke r b (M_toggleWishlist pid) s = void (toggleWishlist b pid s)"
| "invoke r b (M_updateUser d) s = void (updateUser b d s)"
| "invoke r b (M_addAddress a) s = void (addAddress r b a s)"
| "invoke r b (M_updateAddress aid a) s = void (updateAddress r b aid a s)"
| "invoke r b (M_deleteAddress aid) s = void (deleteAddress r b aid s)"
| "invoke r b (M_setDefaultAddress aid) s = void (setDefaultAddress r b aid s)"
| "invoke r b (M_createOrder payment addressId) s =
     (case createOrder r b payment addressId s of (res, s') \<Rightarrow> (map_sum id Placed res, s'))"
| "invoke r b (M_createReturnRequest orderId its reason) s =
     void (createReturnRequest b orderId its reason s)"
| "invoke r b (M_markNotificationRead nid) s = void (markNotificationRead b nid s)"
| "invoke r b (M_applyPromoCode c) s =
     (case applyPromoCode b c s of (res, s') \<Rightarrow> (map_sum id Flag res, s'))"
| "invoke r b M_removePromoCode s = void (removePromoCode b s)"

text \<open>The notices shown between two states of the container.\<close>

definition emitted :: "shop \<Rightarrow> shop \<Rightarrow> notice list" where
  "emitted s s' = drop (length (toasts s)) (toasts s')"

subsection \<open>Example data\<close>

definition sample_item :: CartItem where
  "sample_item =
     \<lparr>item_id = ''I1'', productId = ''P1'', product = JObj [(''id'', JStr ''P1'')],
      quantity = 2, item_size = ''M'', color = ''Red'', price = 15,
      addedAt = ''2024-01-01T00:00:00Z''\<rparr>"

definition sample_cart :: Cart where
  "sample_cart =
     \<lparr>cart_id = ''C1'', userId = ''U1'', items = [sample_item], subtotal = 30, shipping = 0,
      tax = 0, total = 30, createdAt = ''2024-01-01T00:00:00Z'',
      updatedAt = ''2024-01-01T00:00:00Z''\<rparr>"

definition sample_wishlist :: Wishlist where
  "sample_wishlist =
     \<lparr>wl_id = ''W1'', wl_userId = ''U1'', wl_items = [],
      wl_createdAt = ''2024-01-01T00:00:00Z'', wl_updatedAt = ''2024-01-01T00:00:00Z''\<rparr>"

definition sample_profile :: UserProfile where
  "sample_profile =
     \<lparr>p_id = ''U1'', p_email = ''ada@example.com'', firstName = ''Ada'',
      lastName = ''Lovelace'', phoneNumber = None, dateOfBirth = None, gender = None,
      avatar = None, emailVerified = True, p_createdAt = ''2024-01-01T00:00:00Z'',
      p_updatedAt = ''2024-01-01T00:00:00Z''\<rparr>"

definition sample_address :: Address where
  "sample_address =
     JObj [(''id'', JStr ''A1''), (''city'', JStr ''London''), (''isDefault'', JBool True)]"

definition sample_order :: Order where
  "sample_order = JObj [(''id'', JStr ''O0'')]"

definition sample_notification :: "string \<Rightarrow> Notification" where
  "sample_notification nid =
     \<lparr>n_id = nid, n_type = ''order'', title = ''Order shipped'', n_message = ''On its way'',
      read = False, n_createdAt = ''2024-01-01T00:00:00Z'', n_data = None\<rparr>"

definition network_down :: thrown where
  "network_down = JsError ''Error'' (JStr ''Failed to fetch'')"

text \<open>A backend on which every call succeeds.\<close>

definition sample_backend :: backend where
  "sample_backend =
     \<lparr>getProfile_reply = Inr sample_profile,
      getCart_reply = Inr sample_cart,
      getWishlist_reply = Inr sample_wishlist,
      getOrders_reply = Inr \<lparr>resp_orders = [], orders_total = 0, orders_page = 1,
                              orders_limit = 50, orders_totalPages = 0\<rparr>,
      getReturns_reply = Inr \<lparr>resp_returns = [], returns_total = 0, returns_page = 1,
                               returns_limit = 50, returns_totalPages = 0\<rparr>,
      getNotifications_reply =
        Inr \<lparr>resp_notifications = [sample_notification ''N1''], notifications_total = 1,
             unreadCount = 1, notifications_page = 1, notifications_limit = 50,
             notifications_totalPages = 1\<rparr>,
      getAddresses_reply = Inr [sample_address],
      addToCart_reply = Inr sample_cart,
      removeFromCart_reply = Inr sample_cart,
      updateCartItem_reply = Inr sample_cart,
      clearCart_reply = Inr (),
      isProductInWishlist_reply = Inr False,
      removeFromWishlist_reply = Inr sample_wishlist,
      addToWishlist_reply = Inr sample_wishlist,
      updateProfile_reply = Inr sample_profile,
      createAddress_reply = Inr sample_address,
      updateAddress_reply = Inr sample_address,
      deleteAddress_reply = Inr (),
      setDefaultAddress_reply = Inr [sample_address],
      createOrder_reply = Inr (JObj [(''id'', JStr ''O1'')]),
      createReturn_reply = Inr (JObj [(''id'', JStr ''R1'')]),
      markNotificationRead_reply = Inr (),
      applyPromoCode_reply = Inr sample_cart,
      removePromoCode_reply = Inr sample_cart\<rparr>"

definition signed_in :: auth where
  "signed_in = \<lparr>isSignedIn = True, clerkUser = Some (JObj [(''id'', JStr ''user_1'')]),
                 auth_userId = Some ''user_1''\<rparr>"

definition local_api :: api_client where
  "local_api = apiClient ''http://localhost:5000/api''"

text \<open>A response 404 with a message, received after 40 ms, its body after 45 ms.\<close>

definition cart_not_found :: exchange where
  "cart_not_found =
     \<lparr>settled_ms = Some 40,
      fetched = Inr \<lparr>http_status = 404,
                     json_read = Finished 45
                       (Inr (JObj [(''message'', JStr ''Cart not found'')]))\<rparr>,
      abort_text = ''The user aborted a request.''\<rparr>"




text \<open>A response 200 whose body is an object without a message.\<close>

definition no_message :: exchange where
  "no_message =
     \<lparr>settled_ms = Some 40,
      fetched = Inr \<lparr>http_status = 200,
                     json_read = Finished 45 (Inr (JObj [(''data'', JArr [])]))\<rparr>,
      abort_text = ''The user aborted a request.''\<rparr>"


text \<open>A connection that is refused after 15 ms.\<close>

definition refused :: exchange where
  "refused =
     \<lparr>settled_ms = Some 15, fetched = Inl (JsError ''TypeError'' (JStr ''Failed to fetch'')),
      abort_text = ''The user aborted a request.''\<rparr>"

text \<open>A response 200 whose \<^verbatim>\<open>data\<close> is \<^verbatim>\<open>false\<close> and whose message is empty.\<close>

definition falsy_body :: json where
  "falsy_body = JObj [(''data'', JBool False), (''message'', JStr [])]"

definition falsy_data :: exchange where
  "falsy_data =
     \<lparr>settled_ms = Some 40,
      fetched = Inr \<lparr>http_status = 200, json_read = Finished 45 (Inr falsy_body)\<rparr>,
      abort_text = ''The user aborted a request.''\<rparr>"

text \<open>Type assertions that read nothing from the JSON.\<close>

definition no_wishlist :: "json \<Rightarrow> Wishlist" where
  "no_wishlist v =
     \<lparr>wl_id = [], wl_userId = [], wl_items = [], wl_createdAt = [], wl_updatedAt = []\<rparr>"

definition no_cart :: "json \<Rightarrow> Cart" where
  "no_cart v =
     \<lparr>cart_id = [], userId = [], items = [], subtotal = 0, shipping = 0, tax = 0, total = 0,
      createdAt = [], updatedAt = []\<rparr>"

section \<open>Properties of the transport client\<close>



lemma get_prop_field:
  "body \<noteq> JNull \<Longrightarrow> get_prop key body = Inr (field key body)"
  by (cases body) (simp_all add: get_prop_def field_def)

lemma envelope_of_parsed:
  assumes "body \<noteq> JNull"
  shows "envelope_of failed_default success_default resp body = Inr
     (if 200 \<le> http_status resp \<and> http_status resp \<le> 299 then
        \<lparr>data = Some (js_or (field ''data'' body) body),
         message = js_or (field ''message'' body) (JStr success_default),
         status = http_status resp, errors = None\<rparr>
      else
        \<lparr>data = None,
         message = js_or (field ''message'' body) (JStr failed_default),
         status = http_status resp,
         errors = Some (js_or (field ''errors'' body) (JArr []))\<rparr>)"
  using get_prop_field [OF assms] by (simp add: envelope_of_def ok_def)

lemma envelope_of_no_data:
  "envelope_of f g resp body = Inr env \<Longrightarrow> data env = None \<Longrightarrow>
     \<not> ok resp \<and> status env = http_status resp"
  by (auto simp: envelope_of_def split: sum.splits if_splits)







lemma unwrap_data_truthy:
  "truthy (data first) \<Longrightarrow> \<exists>j. unwrap_data d first = Inr j"
  by (cases "data first") (simp_all add: unwrap_data_def)

lemma no_data_second_call:
  assumes u: "\<And>d. unwrap_data d response =
             Inl (new_Error (js_or (Some (message response)) (JStr d)))"
  shows "(\<forall>first. truthy (data first) \<longrightarrow>
            duplicateAddress first response =
              Inl (new_Error (js_or (Some (message response))
                     (JStr ''Failed to create address'')))) \<and>
         (\<forall>first. truthy (data first) \<longrightarrow>
            getRelatedProducts as_products product_id pid limit first response =
              Inl (new_Error (js_or (Some (message response))
                     (JStr ''Failed to fetch products''))))"
proof (intro conjI allI impI)
  fix first :: "json envelope"
  assume t: "truthy (data first)"
  from unwrap_data_truthy [OF t]
  obtain j where "unwrap_data ''Failed to fetch address'' first = Inr j"
    by blast
  then show "duplicateAddress first response =
      Inl (new_Error (js_or (Some (message response)) (JStr ''Failed to create address'')))"
    by (simp add: duplicateAddress_def u)
next
  fix first :: "json envelope"
  assume t: "truthy (data first)"
  from unwrap_data_truthy [OF t]
  obtain j where "unwrap_data ''Failed to fetch product'' first = Inr j"
    by blast
  then show "getRelatedProducts as_products product_id pid limit first response =
      Inl (new_Error (js_or (Some (message response)) (JStr ''Failed to fetch products'')))"
    by (simp add: getRelatedProducts_def getProductById_def getProducts_def u)
qed

lemma transport_no_data_status:
  assumes "request c x = Some (Inr response) \<or> upload c x = Some (Inr response)"
    and "data response = None"
  shows "status response \<noteq> 200 \<and> status response \<noteq> 204"
proof -
  have n: "\<And>f g resp. normalise f g resp = Some (Inr response) \<Longrightarrow>
             \<not> ok resp \<and> status response = http_status resp"
    using assms(2)
    by (auto simp: normalise_def split: sum.splits body_read.splits dest: envelope_of_no_data)
  have c1: "\<And>e. request_catch e = Inr response \<Longrightarrow> status response = 500"
    by (auto simp: request_catch_def INTERNAL_SERVER_ERROR_def split: thrown.splits if_splits)
  have c2: "\<And>e. upload_catch e = Inr response \<Longrightarrow> status response = 500"
    by (auto simp: upload_catch_def INTERNAL_SERVER_ERROR_def split: thrown.splits if_splits)
  from assms(1) show ?thesis
  proof
    assume "request c x = Some (Inr response)"
    then show ?thesis
      by (auto simp: request_def request_try_def ok_def
          split: option.splits sum.splits dest!: n c1)
  next
    assume "upload c x = Some (Inr response)"
    then show ?thesis
      by (auto simp: upload_def upload_try_def ok_def
          split: option.splits sum.splits dest!: n c2)
  qed
qed

text \<open>
  Claim C2, as amended. When fetch settles within the timeout with a response whose body
  is read and parses to a JSON value other than \<^verbatim>\<open>null\<close>, a transport call resolves
  as follows. For a status from 200 to 299 the Envelope carries
  \<^verbatim>\<open>data = body.data || body\<close> (the \<^verbatim>\<open>data\<close> property when it is truthy, the
  whole body otherwise), \<^verbatim>\<open>message = body.message || "Success"\<close> and the status of
  the response; for every other status it has no \<^verbatim>\<open>data\<close>,
  \<^verbatim>\<open>message = body.message || "Request failed"\<close> and
  \<^verbatim>\<open>errors = body.errors || []\<close>. That is \<^verbatim>\<open>ApiClient.request\<close>;
  \<^verbatim>\<open>ApiClient.upload\<close> does the same with the default messages
  \<^verbatim>\<open>"Upload successful"\<close> and \<^verbatim>\<open>"Upload failed"\<close>.
\<close>

theorem transport_normalises_response:
  assumes "settled_ms x = Some t" and "t \<le> timeout c" and "fetched x = Inr resp"
    and "json_read resp = Finished t' (Inr body)" and "body \<noteq> JNull"
  shows "request c x = Some (Inr
     (if 200 \<le> http_status resp \<and> http_status resp \<le> 299 then
        \<lparr>data = Some (js_or (field ''data'' body) body),
         message = js_or (field ''message'' body) (JStr ''Success''),
         status = http_status resp, errors = None\<rparr>
      else
        \<lparr>data = None,
         message = js_or (field ''message'' body) (JStr ''Request failed''),
         status = http_status resp,
         errors = Some (js_or (field ''errors'' body) (JArr []))\<rparr>)) \<and>
   upload c x = Some (Inr
     (if 200 \<le> http_status resp \<and> http_status resp \<le> 299 then
        \<lparr>data = Some (js_or (field ''data'' body) body),
         message = js_or (field ''message'' body) (JStr ''Upload successful''),
         status = http_status resp, errors = None\<rparr>
      else
        \<lparr>data = None,
         message = js_or (field ''message'' body) (JStr ''Upload failed''),
         status = http_status resp,
         errors = Some (js_or (field ''errors'' body) (JArr []))\<rparr>))"
proof -
  have "await_fetch c x = Inr resp"
    using assms(1,2,3) by (simp add: await_fetch_def timer_fires_def)
  then show ?thesis
    using assms(4) envelope_of_parsed [OF assms(5)]
    by (simp add: request_def request_try_def upload_def upload_try_def normalise_def)
qed

theorem transport_normalises_response_witness:
  "request local_api cart_not_found =
     Some (Inr \<lparr>data = None, message = JStr ''Cart not found'', status = 404,
                errors = Some (JArr [])\<rparr>) \<and>
   upload local_api no_message =
     Some (Inr \<lparr>data = Some (JArr []), message = JStr ''Upload successful'', status = 200,
                errors = None\<rparr>)"
proof
  show "request local_api cart_not_found =
     Some (Inr \<lparr>data = None, message = JStr ''Cart not found'', status = 404,
                errors = Some (JArr [])\<rparr>)"
    using transport_normalises_response [of cart_not_found 40 local_api
        "\<lparr>http_status = 404,
          json_read = Finished 45 (Inr (JObj [(''message'', JStr ''Cart not found'')]))\<rparr>"
        45 "JObj [(''message'', JStr ''Cart not found'')]"]
    by (simp add: local_api_def cart_not_found_def apiClient_def API_TIMEOUT_def field_def
        get_prop_def js_or_def)
next
  show "upload local_api no_message =
     Some (Inr \<lparr>data = Some (JArr []), message = JStr ''Upload successful'', status = 200,
                errors = None\<rparr>)"
    using transport_normalises_response [of no_message 40 local_api
        "\<lparr>http_status = 200, json_read = Finished 45 (Inr (JObj [(''data'', JArr [])]))\<rparr>"
        45 "JObj [(''data'', JArr [])]"]
    by (simp add: local_api_def no_message_def apiClient_def API_TIMEOUT_def field_def
        get_prop_def js_or_def)
qed

text \<open>
  Claim C2 fails as stated, with \<^verbatim>\<open>??\<close>: on a response 200 with the body
  \<^verbatim>\<open>{"data": false, "message": ""}\<close> \<^verbatim>\<open>request\<close> returns the whole body as
  \<^verbatim>\<open>data\<close> and the message \<^verbatim>\<open>"Success"\<close>, where the claim has \<^verbatim>\<open>false\<close> and
  the empty message; and on a response 200 whose body has no message \<^verbatim>\<open>upload\<close>
  returns the message \<^verbatim>\<open>"Upload successful"\<close>, where the claim has
  \<^verbatim>\<open>"Success"\<close>.
\<close>

theorem transport_nullish_counterexample:
  "request local_api falsy_data =
     Some (Inr \<lparr>data = Some falsy_body, message = JStr ''Success'', status = 200,
                errors = None\<rparr>) \<and>
   spec_envelope 200 falsy_body =
     \<lparr>data = Some (JBool False), message = JStr [], status = 200, errors = None\<rparr> \<and>
   request local_api falsy_data \<noteq> Some (Inr (spec_envelope 200 falsy_body)) \<and>
   upload local_api no_message =
     Some (Inr \<lparr>data = Some (JArr []), message = JStr ''Upload successful'', status = 200,
                errors = None\<rparr>) \<and>
   spec_envelope 200 (JObj [(''data'', JArr [])]) =
     \<lparr>data = Some (JArr []), message = JStr ''Success'', status = 200, errors = None\<rparr> \<and>
   upload local_api no_message \<noteq> Some (Inr (spec_envelope 200 (JObj [(''data'', JArr [])])))"
  by (simp add: request_def request_try_def upload_def upload_try_def await_fetch_def
      timer_fires_def normalise_def envelope_of_def ok_def get_prop_def js_or_def
      spec_envelope_def nullish_or_def field_def local_api_def apiClient_def API_TIMEOUT_def
      falsy_data_def falsy_body_def no_message_def)




section \<open>Properties of the resource services\<close>

text \<open>
  Claim C4, as amended. When the Envelope that \<^verbatim>\<open>request\<close> or \<^verbatim>\<open>upload\<close> returned
  has no \<^verbatim>\<open>data\<close>, every service method that receives the Envelope itself throws an
  error carrying the message of the Envelope (or, were it falsy, the default message of
  the method), and the methods composed of these let that error pass, whichever of their
  calls it comes from. \<^verbatim>\<open>UserService.isProductInWishlist\<close> alone does not: it
  catches the error of \<^verbatim>\<open>getWishlist\<close> and resolves to \<^verbatim>\<open>false\<close>.
\<close>

theorem services_reject_without_data:
  assumes "request c x = Some (Inr response) \<or> upload c x = Some (Inr response)"
    and "data response = None"
  shows "(\<forall>(method, chk, default_message) \<in> set resource_methods.
            settle chk default_message response =
              Inl (new_Error (js_or (Some (message response)) (JStr default_message)))) \<and>
         getCartItemCount as_cart response =
           Inl (new_Error (js_or (Some (message response)) (JStr ''Failed to fetch cart''))) \<and>
         isProductInCart as_cart pid size_opt color_opt response =
           Inl (new_Error (js_or (Some (message response)) (JStr ''Failed to fetch cart''))) \<and>
         getCartItem as_cart pid sz col response =
           Inl (new_Error (js_or (Some (message response)) (JStr ''Failed to fetch cart''))) \<and>
         getDefaultAddress as_addresses isDefault response =
           Inl (new_Error (js_or (Some (message response))
                  (JStr ''Failed to fetch addresses''))) \<and>
         duplicateAddress response other =
           Inl (new_Error (js_or (Some (message response)) (JStr ''Failed to fetch address''))) \<and>
         (\<forall>first. truthy (data first) \<longrightarrow>
            duplicateAddress first response =
              Inl (new_Error (js_or (Some (message response))
                     (JStr ''Failed to create address'')))) \<and>
         getProductsByCategory response =
           Inl (new_Error (js_or (Some (message response)) (JStr ''Failed to fetch products''))) \<and>
         getProductsByBrand response =
           Inl (new_Error (js_or (Some (message response)) (JStr ''Failed to fetch products''))) \<and>
         getRelatedProducts as_products product_id pid limit response other =
           Inl (new_Error (js_or (Some (message response)) (JStr ''Failed to fetch product''))) \<and>
         (\<forall>first. truthy (data first) \<longrightarrow>
            getRelatedProducts as_products product_id pid limit first response =
              Inl (new_Error (js_or (Some (message response))
                     (JStr ''Failed to fetch products'')))) \<and>
         isProductInWishlist as_wishlist pid response = Inr False"
proof -
  have st: "status response \<noteq> 200 \<and> status response \<noteq> 204"
    using transport_no_data_status [OF assms] .
  have u: "\<And>d. unwrap_data d response =
             Inl (new_Error (js_or (Some (message response)) (JStr d)))"
    using assms(2) by (simp add: unwrap_data_def)
  have r: "\<And>d. require_status d response =
             Inl (new_Error (js_or (Some (message response)) (JStr d)))"
    using st by (simp add: require_status_def)
  have s: "\<And>chk d. settle chk d response =
          Inl (new_Error (js_or (Some (message response)) (JStr d)))"
    by (simp add: settle_def u r split: check.splits)
  note two = no_data_second_call [OF u, of as_products product_id pid limit]
  have one: "getCartItemCount as_cart response =
           Inl (new_Error (js_or (Some (message response)) (JStr ''Failed to fetch cart''))) \<and>
         isProductInCart as_cart pid size_opt color_opt response =
           Inl (new_Error (js_or (Some (message response)) (JStr ''Failed to fetch cart''))) \<and>
         getCartItem as_cart pid sz col response =
           Inl (new_Error (js_or (Some (message response)) (JStr ''Failed to fetch cart''))) \<and>
         getDefaultAddress as_addresses isDefault response =
           Inl (new_Error (js_or (Some (message response))
                  (JStr ''Failed to fetch addresses''))) \<and>
         duplicateAddress response other =
           Inl (new_Error (js_or (Some (message response)) (JStr ''Failed to fetch address''))) \<and>
         getProductsByCategory response =
           Inl (new_Error (js_or (Some (message response)) (JStr ''Failed to fetch products''))) \<and>
         getProductsByBrand response =
           Inl (new_Error (js_or (Some (message response)) (JStr ''Failed to fetch products''))) \<and>
         getRelatedProducts as_products product_id pid limit response other =
           Inl (new_Error (js_or (Some (message response)) (JStr ''Failed to fetch product''))) \<and>
         isProductInWishlist as_wishlist pid response = Inr False"
    by (simp add: getCartItemCount_def isProductInCart_def getCartItem_def
        isProductInWishlist_def getCart_def getWishlist_def getDefaultAddress_def
        duplicateAddress_def getProductsByCategory_def getProductsByBrand_def
        getRelatedProducts_def getProductById_def getProducts_def u)
  from s one two show ?thesis
    by (simp add: case_prod_beta)
qed

theorem services_reject_without_data_witness:
  "request local_api cart_not_found =
     Some (Inr \<lparr>data = None, message = JStr ''Cart not found'', status = 404,
                errors = Some (JArr [])\<rparr>) \<and>
   settle ByData ''Failed to fetch cart''
     \<lparr>data = None, message = JStr ''Cart not found'', status = 404, errors = Some (JArr [])\<rparr>
     = Inl (new_Error (JStr ''Cart not found'')) \<and>
   settle ByStatus ''Failed to clear cart''
     \<lparr>data = None, message = JStr ''Cart not found'', status = 404, errors = Some (JArr [])\<rparr>
     = Inl (new_Error (JStr ''Cart not found'')) \<and>
   getCartItemCount no_cart
     \<lparr>data = None, message = JStr ''Cart not found'', status = 404, errors = Some (JArr [])\<rparr>
     = Inl (new_Error (JStr ''Cart not found'')) \<and>
   duplicateAddress
     \<lparr>data = Some sample_address, message = JStr ''Success'', status = 200, errors = None\<rparr>
     \<lparr>data = None, message = JStr ''Cart not found'', status = 404, errors = Some (JArr [])\<rparr>
     = Inl (new_Error (JStr ''Cart not found''))"
proof -
  let ?e = "\<lparr>data = None, message = JStr ''Cart not found'', status = 404,
             errors = Some (JArr [])\<rparr> :: json envelope"
  have q: "request local_api cart_not_found = Some (Inr ?e)"
    by (simp add: request_def request_try_def await_fetch_def timer_fires_def normalise_def
        envelope_of_def ok_def get_prop_def js_or_def local_api_def apiClient_def
        API_TIMEOUT_def cart_not_found_def)
  then have h: "request local_api cart_not_found = Some (Inr ?e) \<or>
      upload local_api cart_not_found = Some (Inr ?e)"
    by simp
  have d: "data ?e = None"
    by simp
  note t = services_reject_without_data [OF h d, where as_cart = no_cart]
  have m1: "(''CartService.getCart'', ByData, ''Failed to fetch cart'') \<in> set resource_methods"
    by (simp add: resource_methods_def)
  have m2: "(''CartService.clearCart'', ByStatus, ''Failed to clear cart'')
      \<in> set resource_methods"
    by (simp add: resource_methods_def)
  note ball = t [THEN conjunct1, rule_format]
  from ball [OF m1] have a: "settle ByData ''Failed to fetch cart'' ?e =
      Inl (new_Error (JStr ''Cart not found''))"
    by (simp add: js_or_def)
  from ball [OF m2] have b: "settle ByStatus ''Failed to clear cart'' ?e =
      Inl (new_Error (JStr ''Cart not found''))"
    by (simp add: js_or_def)
  from t [THEN conjunct2, THEN conjunct1]
  have c: "getCartItemCount no_cart ?e = Inl (new_Error (JStr ''Cart not found''))"
    by (simp add: js_or_def)
  from t have "\<forall>first. truthy (data first) \<longrightarrow>
      duplicateAddress first ?e =
        Inl (new_Error (js_or (Some (message ?e)) (JStr ''Failed to create address'')))"
    by blast
  then have "truthy (data (\<lparr>data = Some sample_address, message = JStr ''Success'',
        status = 200, errors = None\<rparr> :: json envelope)) \<longrightarrow>
      duplicateAddress
        \<lparr>data = Some sample_address, message = JStr ''Success'', status = 200, errors = None\<rparr>
        ?e = Inl (new_Error (js_or (Some (message ?e)) (JStr ''Failed to create address'')))"
    by (rule spec)
  then have e: "duplicateAddress
      \<lparr>data = Some sample_address, message = JStr ''Success'', status = 200, errors = None\<rparr>
      ?e = Inl (new_Error (JStr ''Cart not found''))"
    by (simp add: sample_address_def js_or_def)
  from q a b c e show ?thesis
    by simp
qed

text \<open>
  Claim C4 fails as stated: on the Envelope of a refused connection, which has no
  \<^verbatim>\<open>data\<close> and on which \<^verbatim>\<open>getWishlist\<close> throws,
  \<^verbatim>\<open>isProductInWishlist\<close> resolves to \<^verbatim>\<open>false\<close>.
\<close>

theorem isProductInWishlist_swallows_counterexample:
  "request local_api refused =
     Some (Inr \<lparr>data = None, message = JStr ''Failed to fetch'', status = 500,
                errors = None\<rparr>) \<and>
   getWishlist no_wishlist
     \<lparr>data = None, message = JStr ''Failed to fetch'', status = 500, errors = None\<rparr>
     = Inl (new_Error (JStr ''Failed to fetch'')) \<and>
   isProductInWishlist no_wishlist ''P1''
     \<lparr>data = None, message = JStr ''Failed to fetch'', status = 500, errors = None\<rparr>
     = Inr False"
  by (simp add: request_def request_try_def await_fetch_def timer_fires_def request_catch_def
      js_or_def local_api_def apiClient_def API_TIMEOUT_def INTERNAL_SERVER_ERROR_def
      refused_def isProductInWishlist_def getWishlist_def unwrap_data_def)

section \<open>Properties of the state container\<close>

lemmas effect_defs = toast_success_def toast_error_def issue_def console_error_def

lemma loads_calls [simp]:
  "calls (loadCart b s) = calls s @ [GetCart]"
  "calls (loadWishlist b s) = calls s @ [GetWishlist]"
  "calls (loadOrders b s) = calls s @ [GetOrders 1 50]"
  "calls (loadReturns b s) = calls s @ [GetReturns 1 50]"
  "calls (loadNotifications b s) = calls s @ [GetNotifications 1 50]"
  "calls (loadAddresses r b s) = calls s @ [GetAddresses]"
  by (simp_all add: loadCart_def loadWishlist_def loadOrders_def loadReturns_def
      loadNotifications_def loadAddresses_def effect_defs Let_def
      split: sum.splits option.splits)

lemma loads_toasts [simp]:
  "toasts (loadCart b s) = toasts s"
  "toasts (loadWishlist b s) = toasts s"
  "toasts (loadOrders b s) = toasts s"
  "toasts (loadReturns b s) = toasts s"
  "toasts (loadNotifications b s) = toasts s"
  "toasts (loadAddresses r b s) = toasts s"
  by (simp_all add: loadCart_def loadWishlist_def loadOrders_def loadReturns_def
      loadNotifications_def loadAddresses_def effect_defs Let_def
      split: sum.splits option.splits)

lemma effects_logs [simp]:
  "toasts (issue c s) = toasts s"
  "toasts (toast_success t s) = toasts s @ [ToastSuccess t]"
  "toasts (toast_error m s) = toasts s @ [ToastError m]"
  "calls (issue c s) = calls s @ [c]"
  "calls (toast_success t s) = calls s"
  "calls (toast_error m s) = calls s"
  by (simp_all add: effect_defs)

lemma rethrow_notice [simp]:
  "fst (rethrow d e s) = Inl e"
  "toasts (snd (rethrow d e s)) = toasts s @ [ToastError (error_message e d)]"
  by (simp_all add: rethrow_def effect_defs)

text \<open>
  Claim C1. With a cart whose server-computed total is \<open>T\<close>: \<^verbatim>\<open>getTotalPrice\<close> is
  \<open>T\<close> without a promo, \<open>T * (1 - d / 100)\<close> under a percentage promo of \<open>d\<close>, and
  \<open>max 0 (T - a)\<close> under a fixed promo of \<open>a\<close>, which is never negative; a fixed promo of
  50 on a total of 30 gives 0.
\<close>

theorem getTotalPrice_applies_promo:
  "getTotalPrice (r\<lparr>cart := Some c, appliedPromo := None\<rparr>) = total c \<and>
   getTotalPrice (r\<lparr>cart := Some c,
        appliedPromo := Some \<lparr>code = k, discount = d, type = Percentage\<rparr>\<rparr>)
     = total c * (1 - d / 100) \<and>
   getTotalPrice (r\<lparr>cart := Some c,
        appliedPromo := Some \<lparr>code = k, discount = a, type = Fixed\<rparr>\<rparr>)
     = max 0 (total c - a) \<and>
   0 \<le> getTotalPrice (r\<lparr>cart := Some c,
        appliedPromo := Some \<lparr>code = k, discount = a, type = Fixed\<rparr>\<rparr>) \<and>
   getTotalPrice (r\<lparr>cart := Some (c\<lparr>total := 30\<rparr>),
        appliedPromo := Some \<lparr>code = ''FLAT50'', discount = 50, type = Fixed\<rparr>\<rparr>) = 0"
  by (simp add: getTotalPrice_def)

text \<open>
  Claim C10. Without a cart \<^verbatim>\<open>getTotalPrice\<close> and \<^verbatim>\<open>getTotalItems\<close> are 0,
  whatever promo is applied.
\<close>

theorem no_cart_totals_zero:
  "getTotalPrice (r\<lparr>cart := None\<rparr>) = 0 \<and> getTotalItems (r\<lparr>cart := None\<rparr>) = 0"
  by (simp add: getTotalPrice_def getTotalItems_def)

text \<open>
  Claim C5, as amended. On the transition to signed-in, a failure of the profile fetch
  ends the synchronisation before any of the six loads is issued: the error is recorded
  and shown in one failure notice. Once the profile fetch has succeeded all six loads
  are issued, cart, wishlist, orders, returns, notifications and addresses, whatever
  each of them answers.
\<close>

theorem syncUser_profile_gates_loads:
  assumes "isSignedIn a" and "clerkUser a \<noteq> None" and "auth_userId a \<notin> {None, Some []}"
  shows "(case getProfile_reply b of
            Inl e \<Rightarrow>
              calls (syncUser r a b s) = calls s @ [GetProfile] \<and>
              error (syncUser r a b s) = Some (error_message e ''Failed to load user data'') \<and>
              toasts (syncUser r a b s) =
                toasts s @ [ToastError (error_message e ''Failed to load user data'')]
          | Inr p \<Rightarrow>
              calls (syncUser r a b s) =
                calls s @ [GetProfile, GetCart, GetWishlist, GetOrders 1 50, GetReturns 1 50,
                           GetNotifications 1 50, GetAddresses])"
  using assms by (simp add: syncUser_def Let_def effect_defs split: sum.splits)

theorem syncUser_profile_gates_loads_witness:
  "calls (syncUser initial signed_in
            (sample_backend\<lparr>getWishlist_reply := Inl network_down,
                             getNotifications_reply := Inl network_down\<rparr>) initial)
     = [GetProfile, GetCart, GetWishlist, GetOrders 1 50, GetReturns 1 50,
        GetNotifications 1 50, GetAddresses] \<and>
   toasts (syncUser initial signed_in
            (sample_backend\<lparr>getProfile_reply := Inl network_down\<rparr>) initial)
     = [ToastError (JStr ''Failed to fetch'')]"
proof -
  have a: "isSignedIn signed_in" "clerkUser signed_in \<noteq> None"
      "auth_userId signed_in \<notin> {None, Some []}"
    by (simp_all add: signed_in_def)
  note t1 = syncUser_profile_gates_loads [OF a,
      where b = "sample_backend\<lparr>getWishlist_reply := Inl network_down,
                                getNotifications_reply := Inl network_down\<rparr>"
        and r = initial and s = initial]
  note t2 = syncUser_profile_gates_loads [OF a,
      where b = "sample_backend\<lparr>getProfile_reply := Inl network_down\<rparr>"
        and r = initial and s = initial]
  from t1 t2 show ?thesis
    by (simp add: sample_backend_def initial_def network_down_def error_message_def)
qed

text \<open>
  Claim C5 fails as stated: when the profile fetch fails on a backend that would answer
  every other call, the only call issued is the profile fetch, and the cart stays absent.
\<close>

theorem syncUser_profile_failure_counterexample:
  "calls (syncUser initial signed_in
            (sample_backend\<lparr>getProfile_reply := Inl network_down\<rparr>) initial) = [GetProfile] \<and>
   cart (syncUser initial signed_in
            (sample_backend\<lparr>getProfile_reply := Inl network_down\<rparr>) initial) = None"
  by (simp add: syncUser_def Let_def signed_in_def sample_backend_def initial_def effect_defs)

text \<open>
  Claim C9 does not hold of the code. In the render that precedes the sign-in the state
  variable \<^verbatim>\<open>user\<close> is \<^verbatim>\<open>null\<close>, and that is the value \<^verbatim>\<open>loadAddresses\<close>
  tests when the effect runs it, although \<^verbatim>\<open>setUser(userData)\<close> has been called:
  whatever the address fetch returns, the fan-out leaves the user with no address. So it
  is on the first render, on a backend where the profile fetch succeeds and the address
  fetch returns one address.
\<close>

theorem syncUser_addresses_stay_empty:
  "map_option addresses
     (user (syncUser (r\<lparr>user := None\<rparr>) signed_in
              (b\<lparr>getProfile_reply := Inr p, getAddresses_reply := Inr addrs\<rparr>) s)) = Some [] \<and>
   getAddresses_reply sample_backend = Inr [sample_address] \<and>
   user (syncUser initial signed_in sample_backend initial) =
     Some \<lparr>u_id = ''U1'', name = ''Ada Lovelace'', email = ''ada@example.com'', phone = None,
           addresses = [], spread = None\<rparr>"
  by (simp add: syncUser_def Let_def signed_in_def sample_backend_def initial_def effect_defs
      loadCart_def loadWishlist_def loadOrders_def loadReturns_def
      loadNotifications_def loadAddresses_def sample_profile_def trim_def is_space_def
      split: sum.splits)

text \<open>
  Claim C6. \<^verbatim>\<open>createOrder\<close> called from a render without a cart throws the error
  \<^verbatim>\<open>Cart is empty\<close> and issues no service call; the orders, the cart and the applied
  promo are as before, and the error is shown in one failure notice.
\<close>

theorem createOrder_without_cart:
  assumes "cart r = None"
  shows "fst (createOrder r b payment addressId s) = Inl (new_Error (JStr ''Cart is empty'')) \<and>
         calls (snd (createOrder r b payment addressId s)) = calls s \<and>
         orders (snd (createOrder r b payment addressId s)) = orders s \<and>
         cart (snd (createOrder r b payment addressId s)) = cart s \<and>
         appliedPromo (snd (createOrder r b payment addressId s)) = appliedPromo s \<and>
         toasts (snd (createOrder r b payment addressId s)) =
           toasts s @ [ToastError (JStr ''Cart is empty'')]"
  using assms
  by (simp add: createOrder_def rethrow_def effect_defs error_message_def new_Error_def)

theorem createOrder_without_cart_witness:
  "fst (createOrder (initial\<lparr>orders := [sample_order]\<rparr>) sample_backend ''card'' ''A1''
          (initial\<lparr>orders := [sample_order]\<rparr>))
     = Inl (new_Error (JStr ''Cart is empty'')) \<and>
   calls (snd (createOrder (initial\<lparr>orders := [sample_order]\<rparr>) sample_backend ''card'' ''A1''
          (initial\<lparr>orders := [sample_order]\<rparr>))) = [] \<and>
   orders (snd (createOrder (initial\<lparr>orders := [sample_order]\<rparr>) sample_backend ''card'' ''A1''
          (initial\<lparr>orders := [sample_order]\<rparr>))) = [sample_order]"
  using createOrder_without_cart [of "initial\<lparr>orders := [sample_order]\<rparr>" sample_backend
      "''card''" "''A1''" "initial\<lparr>orders := [sample_order]\<rparr>"]
  by (simp add: initial_def)

text \<open>
  Claim C7, as amended. A mutation method shows at most one notice per invocation, so
  never a success and a failure notice together. An invocation that throws shows exactly
  one failure notice. An invocation that returns shows exactly one success notice, except
  for \<^verbatim>\<open>updateCartQuantity\<close> and \<^verbatim>\<open>markNotificationRead\<close>, which then show none, and
  for \<^verbatim>\<open>applyPromoCode\<close>, which never throws: it returns \<^verbatim>\<open>true\<close> when its
  service call succeeds and the code is one of the built-in promo codes, and
  \<^verbatim>\<open>false\<close> otherwise; it shows one success notice when it returns \<^verbatim>\<open>true\<close> and
  one failure notice when its service call fails.
\<close>

theorem mutation_notices:
  "\<exists>new. toasts (snd (invoke r b m s)) = toasts s @ new \<and> length new \<le> 1 \<and>
     (\<forall>e. fst (invoke r b m s) = Inl e \<longrightarrow> (\<exists>msg. new = [ToastError msg])) \<and>
     (\<forall>v. fst (invoke r b m s) = Inr v \<longrightarrow>
        (case m of
           M_updateCartQuantity itemId qty \<Rightarrow> new = []
         | M_markNotificationRead nid \<Rightarrow> new = []
         | M_applyPromoCode c \<Rightarrow>
             (v = Flag True \<longrightarrow> (\<exists>t. new = [ToastSuccess t])) \<and>
             (isl (applyPromoCode_reply b) \<longrightarrow> (\<exists>msg. new = [ToastError msg]))
         | _ \<Rightarrow> \<exists>t. new = [ToastSuccess t])) \<and>
     (\<forall>c. m = M_applyPromoCode c \<longrightarrow>
        fst (invoke r b m s) =
          Inr (Flag (\<not> isl (applyPromoCode_reply b) \<and>
                     find (\<lambda>p. toLowerCase (code p) = toLowerCase c) promoCodes \<noteq> None)))"
proof (cases m)
  case (M_addToCart pid sz col qty)
  then show ?thesis
    by (auto simp: void_def addToCart_def Let_def split: sum.splits)
next
  case (M_removeFromCart itemId)
  then show ?thesis
    by (auto simp: void_def removeFromCart_def Let_def split: sum.splits)
next
  case (M_updateCartQuantity itemId qty)
  then show ?thesis
    by (auto simp: void_def updateCartQuantity_def Let_def split: sum.splits)
next
  case M_clearCart
  then show ?thesis
    by (auto simp: void_def clearCart_def Let_def effect_defs split: sum.splits)
next
  case (M_toggleWishlist pid)
  then show ?thesis
    by (auto simp: void_def toggleWishlist_def Let_def split: sum.splits if_splits)
next
  case (M_updateUser d)
  then show ?thesis
    by (auto simp: void_def updateUser_def Let_def effect_defs split: sum.splits)
next
  case (M_addAddress a)
  then show ?thesis
    by (auto simp: void_def addAddress_def Let_def split: sum.splits)
next
  case (M_updateAddress aid a)
  then show ?thesis
    by (auto simp: void_def updateAddress_def Let_def split: sum.splits)
next
  case (M_deleteAddress aid)
  then show ?thesis
    by (auto simp: void_def deleteAddress_def Let_def split: sum.splits)
next
  case (M_setDefaultAddress aid)
  then show ?thesis
    by (auto simp: void_def setDefaultAddress_def Let_def split: sum.splits)
next
  case (M_createOrder payment addressId)
  then show ?thesis
    by (auto simp: createOrder_def Let_def effect_defs case_prod_beta
        split: sum.splits option.splits)
next
  case (M_createReturnRequest orderId its reason)
  then show ?thesis
    by (auto simp: void_def createReturnRequest_def Let_def split: sum.splits)
next
  case (M_markNotificationRead nid)
  then show ?thesis
    by (auto simp: void_def markNotificationRead_def Let_def effect_defs split: sum.splits)
next
  case (M_applyPromoCode c)
  then show ?thesis
    by (auto simp: applyPromoCode_def Let_def effect_defs case_prod_beta
        split: sum.splits option.splits)
next
  case M_removePromoCode
  then show ?thesis
    by (auto simp: void_def removePromoCode_def Let_def effect_defs split: sum.splits)
qed

theorem mutation_notices_witness:
  "(\<exists>msg. toasts (snd (invoke initial (sample_backend\<lparr>addToCart_reply := Inl network_down\<rparr>)
              (M_addToCart ''P1'' ''M'' ''Red'' 2) initial)) = [ToastError msg]) \<and>
   (\<exists>t. toasts (snd (invoke initial sample_backend M_clearCart initial)) = [ToastSuccess t]) \<and>
   fst (invoke initial (sample_backend\<lparr>applyPromoCode_reply := Inl network_down\<rparr>)
          (M_applyPromoCode ''FLAT50'') initial) = Inr (Flag False) \<and>
   (\<exists>msg. toasts (snd (invoke initial
              (sample_backend\<lparr>applyPromoCode_reply := Inl network_down\<rparr>)
              (M_applyPromoCode ''FLAT50'') initial)) = [ToastError msg])"
proof (intro conjI)
  let ?b = "sample_backend\<lparr>addToCart_reply := Inl network_down\<rparr>"
  let ?m = "M_addToCart ''P1'' ''M'' ''Red'' 2"
  have f: "fst (invoke initial ?b ?m initial) = Inl network_down"
    by (simp add: void_def addToCart_def Let_def)
  from mutation_notices [of initial ?b ?m initial] f
  show "\<exists>msg. toasts (snd (invoke initial ?b ?m initial)) = [ToastError msg]"
    by (auto simp: initial_def)
next
  have f: "fst (invoke initial sample_backend M_clearCart initial) = Inr Void"
    by (simp add: void_def clearCart_def Let_def sample_backend_def)
  from mutation_notices [of initial sample_backend M_clearCart initial] f
  show "\<exists>t. toasts (snd (invoke initial sample_backend M_clearCart initial)) = [ToastSuccess t]"
    by (auto simp: initial_def)
next
  let ?b = "sample_backend\<lparr>applyPromoCode_reply := Inl network_down\<rparr>"
  let ?m = "M_applyPromoCode ''FLAT50''"
  from mutation_notices [of initial ?b ?m initial]
  have all: "\<forall>c. ?m = M_applyPromoCode c \<longrightarrow>
        fst (invoke initial ?b ?m initial) =
          Inr (Flag (\<not> isl (applyPromoCode_reply ?b) \<and>
                     find (\<lambda>p. toLowerCase (code p) = toLowerCase c) promoCodes \<noteq> None))"
    by blast
  then have "fst (invoke initial ?b ?m initial) =
          Inr (Flag (\<not> isl (applyPromoCode_reply ?b) \<and>
                     find (\<lambda>p. toLowerCase (code p) = toLowerCase ''FLAT50'') promoCodes
                       \<noteq> None))"
    by blast
  then show f: "fst (invoke initial ?b ?m initial) = Inr (Flag False)"
    by simp
  from mutation_notices [of initial ?b ?m initial] f
  show "\<exists>msg. toasts (snd (invoke initial ?b ?m initial)) = [ToastError msg]"
    by (auto simp: initial_def)
qed

text \<open>
  Claim C7 fails as stated: \<^verbatim>\<open>updateCartQuantity\<close> on a backend that answers every call
  returns without having shown a notice.
\<close>

theorem updateCartQuantity_silent_counterexample:
  "fst (invoke initial sample_backend (M_updateCartQuantity ''I1'' 3) initial) = Inr Void \<and>
   emitted initial (snd (invoke initial sample_backend (M_updateCartQuantity ''I1'' 3) initial))
     = []"
  by (simp add: void_def updateCartQuantity_def Let_def sample_backend_def emitted_def
      initial_def loadCart_def effect_defs)

text \<open>
  Claim C8. When the service call succeeds, \<^verbatim>\<open>markNotificationRead\<close> returns without
  error, issues that one call only (the notifications are not fetched again), and
  changes the local list in place: a notification with the given id has its
  \<^verbatim>\<open>read\<close> flag set, every other notification is as before. A second identical call
  also returns without error and leaves the list as the first call left it.
\<close>

theorem markNotificationRead_patches_locally:
  assumes "markNotificationRead_reply b = Inr ()"
  shows "fst (markNotificationRead b nid s) = Inr () \<and>
         calls (snd (markNotificationRead b nid s)) = calls s @ [MarkNotificationRead nid] \<and>
         length (notifications (snd (markNotificationRead b nid s))) =
           length (notifications s) \<and>
         (\<forall>k < length (notifications s).
            notifications (snd (markNotificationRead b nid s)) ! k =
              (if n_id (notifications s ! k) = nid then (notifications s ! k)\<lparr>read := True\<rparr>
               else notifications s ! k)) \<and>
         fst (markNotificationRead b nid (snd (markNotificationRead b nid s))) = Inr () \<and>
         notifications (snd (markNotificationRead b nid (snd (markNotificationRead b nid s)))) =
           notifications (snd (markNotificationRead b nid s))"
  using assms by (simp add: markNotificationRead_def effect_defs Let_def comp_def)

theorem markNotificationRead_patches_locally_witness:
  "notifications (snd (markNotificationRead sample_backend ''N1''
       (initial\<lparr>notifications := [sample_notification ''N1'', sample_notification ''N2'']\<rparr>)))
   = [(sample_notification ''N1'')\<lparr>read := True\<rparr>, sample_notification ''N2''] \<and>
   notifications (snd (markNotificationRead sample_backend ''N1''
     (snd (markNotificationRead sample_backend ''N1''
       (initial\<lparr>notifications := [sample_notification ''N1'', sample_notification ''N2'']\<rparr>)))))
   = [(sample_notification ''N1'')\<lparr>read := True\<rparr>, sample_notification ''N2''] \<and>
   calls (snd (markNotificationRead sample_backend ''N1''
       (initial\<lparr>notifications := [sample_notification ''N1'', sample_notification ''N2'']\<rparr>)))
   = [MarkNotificationRead ''N1'']"
proof -
  let ?s = "initial\<lparr>notifications := [sample_notification ''N1'', sample_notification ''N2'']\<rparr>"
  have r: "markNotificationRead_reply sample_backend = Inr ()"
    by (simp add: sample_backend_def)
  note t = markNotificationRead_patches_locally [OF r, of "''N1''" ?s]
  from t have k0: "notifications (snd (markNotificationRead sample_backend ''N1'' ?s)) ! 0
      = (sample_notification ''N1'')\<lparr>read := True\<rparr>"
    by (simp add: sample_notification_def)
  from t have k1: "notifications (snd (markNotificationRead sample_backend ''N1'' ?s)) ! 1
      = sample_notification ''N2''"
    by (simp add: sample_notification_def)
  from t have len: "length (notifications (snd (markNotificationRead sample_backend ''N1'' ?s)))
      = 2"
    by simp
  have eq: "notifications (snd (markNotificationRead sample_backend ''N1'' ?s))
      = [(sample_notification ''N1'')\<lparr>read := True\<rparr>, sample_notification ''N2'']"
    using k0 k1 len by (simp add: list_eq_iff_nth_eq less_Suc_eq numeral_2_eq_2)
  from t eq show ?thesis
    by (simp add: initial_def)
qed

end
